theory Spec2Isabelle
  imports Main "HOL-Library.Sublist" "HOL-Library.AList"
begin

section \<open>Python values and the library functions the scripts call\<close>

text \<open>
  The scripts build and inspect JSON trees (Python dicts, lists, strings and integers).
  A dict is an association list in insertion order; its keys are distinct. Floating-point
  numbers do not occur in any tree the modelled functions build or inspect.
\<close>

datatype json =
    JNull
  | JBool bool
  | JInt int
  | JStr string
  | JList "json list"
  | JObj "(string \<times> json) list"

text \<open>The exceptions that the modelled code can raise, by class.\<close>

datatype pyerr = KeyError | ValueError | IndexError | TypeError | AttributeError

text \<open>
  Attribute values of a log template after resolution: the catalog only produces strings,
  but \<open>str(value)\<close> and \<open>str.format\<close> are defined for integers as well.
\<close>

datatype pyval = VStr string | VInt int

definition digit_char :: "nat \<Rightarrow> char" where
  "digit_char d = ''0123456789abcdef'' ! d"

fun str_of_nat :: "nat \<Rightarrow> string" where
  "str_of_nat n =
     (if n < 10 then [digit_char n] else str_of_nat (n div 10) @ [digit_char (n mod 10)])"

declare str_of_nat.simps [simp del]

definition str_of_int :: "int \<Rightarrow> string" where
  \<comment> \<open>\<open>str(i)\<close> for a Python int.\<close>
  "str_of_int i = (if i < 0 then CHR ''-'' # str_of_nat (nat (- i)) else str_of_nat (nat i))"

fun py_str :: "pyval \<Rightarrow> string" where
  \<comment> \<open>\<open>str(value)\<close>\<close>
  "py_str (VStr s) = s"
| "py_str (VInt i) = str_of_int i"

definition zero_pad2 :: "int \<Rightarrow> string" where
  \<comment> \<open>The format \<open>{n:02d}\<close> for a non-negative int.\<close>
  "zero_pad2 n = (if 0 \<le> n \<and> n < 10 then CHR ''0'' # str_of_int n else str_of_int n)"

primrec hex_digits :: "nat \<Rightarrow> nat \<Rightarrow> string" where
  \<comment> \<open>\<open>'%0kx' % n\<close> for \<open>n < 16 ^ k\<close>: exactly \<open>k\<close> lowercase hexadecimal digits.\<close>
  "hex_digits 0 n = []"
| "hex_digits (Suc k) n = hex_digits k (n div 16) @ [digit_char (n mod 16)]"

text \<open>
  Dict access. \<open>d.get(k, default)\<close> exists on dicts only; on any other JSON value the
  attribute lookup raises \<open>AttributeError\<close>.
\<close>

fun dict_get :: "json \<Rightarrow> string \<Rightarrow> json \<Rightarrow> pyerr + json" where
  "dict_get (JObj kvs) k dflt = Inr (case map_of kvs k of None \<Rightarrow> dflt | Some v \<Rightarrow> v)"
| "dict_get _ k dflt = Inl AttributeError"

fun dict_item :: "json \<Rightarrow> string \<Rightarrow> pyerr + json" where
  \<comment> \<open>\<open>d[k]\<close> with a string key: \<open>KeyError\<close> on a dict without the key, \<open>TypeError\<close> on
      a string, list, number, boolean or \<open>None\<close>.\<close>
  "dict_item (JObj kvs) k = (case map_of kvs k of None \<Rightarrow> Inl KeyError | Some v \<Rightarrow> Inr v)"
| "dict_item _ k = Inl TypeError"

fun truthy :: "json \<Rightarrow> bool" where
  \<comment> \<open>Python's truth value of a JSON value.\<close>
  "truthy JNull = False"
| "truthy (JBool b) = b"
| "truthy (JInt i) = (i \<noteq> 0)"
| "truthy (JStr s) = (s \<noteq> [])"
| "truthy (JList xs) = (xs \<noteq> [])"
| "truthy (JObj kvs) = (kvs \<noteq> [])"

fun json_field :: "json \<Rightarrow> string \<Rightarrow> json option" where
  \<comment> \<open>The value under a key of a dict, for reading a tree.\<close>
  "json_field (JObj kvs) k = map_of kvs k"
| "json_field _ k = None"

definition log_records_of :: "json \<Rightarrow> json list option" where
  \<comment> \<open>The log records of an OTLP tree that has exactly one entry under \<open>resourceLogs\<close>
      and, in it, exactly one entry under \<open>scopeLogs\<close>.\<close>
  "log_records_of tree =
     (case json_field tree ''resourceLogs'' of
        Some (JList [resource_log]) \<Rightarrow>
          (case json_field resource_log ''scopeLogs'' of
             Some (JList [scope_log]) \<Rightarrow>
               (case json_field scope_log ''logRecords'' of
                  Some (JList records) \<Rightarrow> Some records
                | _ \<Rightarrow> None)
           | _ \<Rightarrow> None)
      | _ \<Rightarrow> None)"

subsection \<open>Strings\<close>

text \<open>
  Text is ASCII. \<open>needle in hay\<close> is \<^const>\<open>sublist\<close>, \<open>s.startswith(p)\<close> is
  \<^const>\<open>prefix\<close>.
\<close>

definition lower_char :: "char \<Rightarrow> char" where
  "lower_char c =
     (case map_of (zip ''ABCDEFGHIJKLMNOPQRSTUVWXYZ'' ''abcdefghijklmnopqrstuvwxyz'') c of
        None \<Rightarrow> c | Some l \<Rightarrow> l)"

definition py_lower :: "string \<Rightarrow> string" where
  "py_lower s = map lower_char s"

fun split_on :: "char \<Rightarrow> string \<Rightarrow> string list" where
  \<comment> \<open>\<open>s.split(sep)\<close> for a one-character separator: never empty, and two separators in a
      row give an empty piece.\<close>
  "split_on sep [] = [[]]"
| "split_on sep (c # cs) =
     (if c = sep then [] # split_on sep cs
      else (case split_on sep cs of [] \<Rightarrow> [[c]] | w # ws \<Rightarrow> (c # w) # ws))"

subsection \<open>Randomness\<close>

text \<open>
  The entropy the process reads (the \<open>random\<close> module and \<open>uuid.uuid4\<close>) is a stream of
  natural numbers, consumed one draw per library call in the order of evaluation.
\<close>

type_synonym rng = "nat \<Rightarrow> nat"

definition draw :: "rng \<Rightarrow> nat \<times> rng" where
  "draw r = (r 0, \<lambda>i. r (Suc i))"

definition random_randint :: "int \<Rightarrow> int \<Rightarrow> rng \<Rightarrow> int \<times> rng" where
  \<comment> \<open>\<open>random.randint(a, b)\<close> with \<open>a \<le> b\<close>: some integer of the closed range.\<close>
  "random_randint a b r = (case draw r of (d, r') \<Rightarrow> (a + int (d mod nat (b - a + 1)), r'))"

definition random_choice :: "'a list \<Rightarrow> rng \<Rightarrow> 'a \<times> rng" where
  \<comment> \<open>\<open>random.choice(xs)\<close>; every call site passes a non-empty literal list.\<close>
  "random_choice xs r = (case draw r of (d, r') \<Rightarrow> (xs ! (d mod length xs), r'))"

definition uuid4_of :: "nat \<Rightarrow> string" where
  \<comment> \<open>The \<open>hex\<close> of a version 4 UUID made of the random bits \<open>d\<close>: 32 hexadecimal
      digits of the low 128 bits, with the version nibble (index 12) set to 4 and the two
      variant bits (the top of nibble 16) set to binary 10.\<close>
  "uuid4_of d =
     (let h = hex_digits 32 (d mod 2 ^ 128);
          v = (d mod 2 ^ 128) div 16 ^ 15 mod 4
      in h[12 := CHR ''4'', 16 := digit_char (8 + v)])"

definition uuid4_hex :: "rng \<Rightarrow> string \<times> rng" where
  \<comment> \<open>\<open>uuid.uuid4().hex\<close>\<close>
  "uuid4_hex r = (case draw r of (d, r') \<Rightarrow> (uuid4_of d, r'))"

definition advance :: "nat \<Rightarrow> rng \<Rightarrow> rng" where
  \<comment> \<open>The random source after \<open>k\<close> draws.\<close>
  "advance k r = (\<lambda>i. r (i + k))"

subsection \<open>\<open>str.format\<close> with keyword arguments only\<close>

text \<open>
  The model follows CPython 3 (\<open>Objects/stringlib/unicode_format.h\<close>) for a call
  \<open>template.format(**kwargs)\<close>, that is with an empty tuple of positional arguments.
  A replacement field is \<open>{field_name[!conversion][:format_spec]}\<close>.
\<close>

record replacement_field =
  field_name :: string
  conversion :: "char option"
  format_spec :: string

text \<open>
  \<open>parse_field\<close>, first loop: the field name runs up to the first \<open>}\<close>, \<open>:\<close> or \<open>!\<close>
  outside square brackets. The flag says that the scan is inside \<open>[...]\<close>, where
  every character up to the closing bracket is skipped. The result is the name, the
  terminating character and the text after it.
\<close>

fun scan_field_name :: "bool \<Rightarrow> string \<Rightarrow> string \<Rightarrow> pyerr + (string \<times> char \<times> string)" where
  "scan_field_name in_index acc [] = Inl ValueError"
| "scan_field_name in_index acc (c # cs) =
     (if in_index then scan_field_name (c \<noteq> CHR '']'') (acc @ [c]) cs
      else if c = CHR ''{'' then Inl ValueError
      else if c = CHR ''['' then scan_field_name True (acc @ [c]) cs
      else if c = CHR ''}'' \<or> c = CHR '':'' \<or> c = CHR ''!'' then Inr (acc, c, cs)
      else scan_field_name False (acc @ [c]) cs)"

text \<open>
  \<open>parse_field\<close>, second loop: the format spec runs up to the \<open>}\<close> that closes the
  field, counting nested braces.
\<close>

fun scan_format_spec :: "nat \<Rightarrow> string \<Rightarrow> string \<Rightarrow> pyerr + (string \<times> string)" where
  "scan_format_spec count acc [] = Inl ValueError"
| "scan_format_spec count acc (c # cs) =
     (if c = CHR ''{'' then scan_format_spec (Suc count) (acc @ [c]) cs
      else if c = CHR ''}'' then
        (if count = 1 then Inr (acc, cs) else scan_format_spec (count - 1) (acc @ [c]) cs)
      else scan_format_spec count (acc @ [c]) cs)"

definition parse_spec :: "string \<Rightarrow> char option \<Rightarrow> string \<Rightarrow> pyerr + (replacement_field \<times> string)" where
  "parse_spec name conv s =
     (case scan_format_spec 1 [] s of
        Inl e \<Rightarrow> Inl e
      | Inr (spec, rest) \<Rightarrow>
          Inr (\<lparr>field_name = name, conversion = conv, format_spec = spec\<rparr>, rest))"

definition parse_field :: "string \<Rightarrow> pyerr + (replacement_field \<times> string)" where
  \<comment> \<open>The text after an opening brace; the result is the field and the text after its
      closing brace.\<close>
  "parse_field s =
     (case scan_field_name False [] s of
        Inl e \<Rightarrow> Inl e
      | Inr (name, c, rest) \<Rightarrow>
          if c = CHR ''!'' then
            (case rest of
               [] \<Rightarrow> Inl ValueError
             | conv # rest1 \<Rightarrow>
                 (case rest1 of
                    [] \<Rightarrow> parse_spec name (Some conv) []
                  | c1 # rest2 \<Rightarrow>
                      if c1 = CHR ''}'' then
                        Inr (\<lparr>field_name = name, conversion = Some conv, format_spec = []\<rparr>, rest2)
                      else if c1 \<noteq> CHR '':'' then Inl ValueError
                      else parse_spec name (Some conv) rest2))
          else if c = CHR '':'' then parse_spec name None rest
          else Inr (\<lparr>field_name = name, conversion = None, format_spec = []\<rparr>, rest))"

definition is_brace :: "char \<Rightarrow> bool" where
  "is_brace c = (c = CHR ''{'' \<or> c = CHR ''}'')"

definition markup_next :: "string \<Rightarrow> pyerr + (string \<times> replacement_field option \<times> string) option" where
  \<comment> \<open>\<open>MarkupIterator_next\<close>: \<open>None\<close> at the end of the input, otherwise the literal
      text, the replacement field that follows it (if any) and the rest of the input.
      A doubled brace ends the literal, which then includes one brace.\<close>
  "markup_next s =
     (if s = [] then Inr None
      else
        (case dropWhile (\<lambda>c. \<not> is_brace c) s of
           [] \<Rightarrow> Inr (Some (s, None, []))
         | c # rest \<Rightarrow>
             (let lit = takeWhile (\<lambda>c. \<not> is_brace c) s in
              if c = CHR ''}'' \<and> (rest = [] \<or> hd rest \<noteq> c) then Inl ValueError
              else if rest = [] then Inl ValueError
              else if hd rest = c then Inr (Some (lit @ [c], None, tl rest))
              else
                (case parse_field rest of
                   Inl e \<Rightarrow> Inl e
                 | Inr (f, rest') \<Rightarrow> Inr (Some (lit, Some f, rest'))))))"

text \<open>
  \<open>get_integer\<close>: a field name whose first part is all digits is a positional index;
  too many digits for a C \<open>Py_ssize_t\<close> (64 bits) is a \<open>ValueError\<close>.
\<close>

definition PY_SSIZE_T_MAX :: nat where
  "PY_SSIZE_T_MAX = 2 ^ 63 - 1"

definition is_digit :: "char \<Rightarrow> bool" where
  "is_digit c = (c \<in> set ''0123456789'')"

definition digit_val :: "char \<Rightarrow> nat" where
  "digit_val c = of_char c - 48"

fun get_integer_loop :: "nat \<Rightarrow> string \<Rightarrow> pyerr + nat option" where
  "get_integer_loop accumulator [] = Inr (Some accumulator)"
| "get_integer_loop accumulator (c # cs) =
     (if \<not> is_digit c then Inr None
      else if accumulator > (PY_SSIZE_T_MAX - digit_val c) div 10 then Inl ValueError
      else get_integer_loop (accumulator * 10 + digit_val c) cs)"

definition get_integer :: "string \<Rightarrow> pyerr + nat option" where
  "get_integer s = (if s = [] then Inr None else get_integer_loop 0 s)"

definition is_accessor_start :: "char \<Rightarrow> bool" where
  "is_accessor_start c = (c = CHR ''.'' \<or> c = CHR ''['')"

text \<open>
  What CPython does with a field that is more than a plain name, after the first part of
  the name has been looked up: the attribute and index accessors, the conversion and the
  format spec (which may itself contain fields). This part of the library is a parameter
  of the model: it receives the keyword arguments, the object found, the accessor text,
  the conversion and the format spec, and returns the rendered text or raises.
\<close>

type_synonym field_renderer =
  "(string \<times> pyval) list \<Rightarrow> pyval \<Rightarrow> string \<Rightarrow> char option \<Rightarrow> string \<Rightarrow> pyerr + string"

definition field_key :: "replacement_field \<Rightarrow> string" where
  \<comment> \<open>\<open>field_name_split\<close>: the first part of the field name, up to a \<open>.\<close> or \<open>[\<close>.\<close>
  "field_key f = takeWhile (\<lambda>c. \<not> is_accessor_start c) (field_name f)"

definition field_accessors :: "replacement_field \<Rightarrow> string" where
  "field_accessors f = dropWhile (\<lambda>c. \<not> is_accessor_start c) (field_name f)"

definition get_field_object :: "(string \<times> pyval) list \<Rightarrow> replacement_field \<Rightarrow> pyerr + pyval" where
  \<comment> \<open>The lookup of the first part of the name: an empty or numeric first part indexes
      the (empty) positional arguments, any other is a key of the keyword arguments.\<close>
  "get_field_object kwargs f =
     (case get_integer (field_key f) of
        Inl e \<Rightarrow> Inl e
      | Inr (Some idx) \<Rightarrow> Inl IndexError
      | Inr None \<Rightarrow>
          if field_key f = [] then Inl IndexError
          else (case map_of kwargs (field_key f) of None \<Rightarrow> Inl KeyError | Some obj \<Rightarrow> Inr obj))"

definition render_field ::
  "field_renderer \<Rightarrow> (string \<times> pyval) list \<Rightarrow> replacement_field \<Rightarrow> pyval \<Rightarrow> pyerr + string" where
  \<comment> \<open>A plain field renders \<open>format(obj, '')\<close>, which is \<open>str(obj)\<close>.\<close>
  "render_field ext kwargs f obj =
     (if field_accessors f = [] \<and> conversion f = None \<and> format_spec f = []
      then Inr (py_str obj)
      else ext kwargs obj (field_accessors f) (conversion f) (format_spec f))"

definition output_markup ::
  "field_renderer \<Rightarrow> (string \<times> pyval) list \<Rightarrow> replacement_field \<Rightarrow> pyerr + string" where
  "output_markup ext kwargs f =
     (case get_field_object kwargs f of
        Inl e \<Rightarrow> Inl e
      | Inr obj \<Rightarrow> render_field ext kwargs f obj)"

text \<open>
  The loop of \<open>do_markup\<close> consumes the input chunk by chunk; every chunk is
  shorter than the input it was cut from, which is the termination argument.
\<close>

lemma scan_field_name_rest:
  "scan_field_name b acc s = Inr (name, c, rest) \<Longrightarrow> length rest < length s"
  by (induction b acc s rule: scan_field_name.induct) (auto split: if_splits)

lemma scan_format_spec_rest:
  "scan_format_spec n acc s = Inr (spec, rest) \<Longrightarrow> length rest < length s"
  by (induction n acc s rule: scan_format_spec.induct) (auto split: if_splits)

lemma parse_spec_rest:
  "parse_spec name conv s = Inr (f, rest) \<Longrightarrow> length rest < length s"
  by (auto simp: parse_spec_def split: sum.splits dest: scan_format_spec_rest)

lemma parse_field_rest:
  "parse_field s = Inr (f, rest) \<Longrightarrow> length rest < length s"
  unfolding parse_field_def
  by (fastforce split: sum.splits if_splits list.splits dest!: scan_field_name_rest parse_spec_rest)

lemma markup_next_rest:
  assumes "markup_next s = Inr (Some (lit, fo, rest))"
  shows "length rest < length s"
proof (cases "dropWhile (\<lambda>c. \<not> is_brace c) s")
  case Nil
  from assms have "s \<noteq> []" by (auto simp: markup_next_def)
  moreover from assms have "rest = []"
    unfolding markup_next_def Nil by (simp split: if_splits)
  ultimately show ?thesis by simp
next
  case (Cons c cs)
  have le: "length (c # cs) \<le> length s"
    using length_dropWhile_le [of "\<lambda>c. \<not> is_brace c" s] Cons by simp
  from assms have "(rest = tl cs \<and> cs \<noteq> []) \<or> (\<exists>f. parse_field cs = Inr (f, rest))"
    unfolding markup_next_def Cons by (auto simp: Let_def split: if_splits sum.splits prod.splits)
  then show ?thesis
    using le by (cases cs) (auto dest!: parse_field_rest)
qed

function do_markup :: "field_renderer \<Rightarrow> (string \<times> pyval) list \<Rightarrow> string \<Rightarrow> pyerr + string" where
  "do_markup ext kwargs s =
     (case markup_next s of
        Inl e \<Rightarrow> Inl e
      | Inr None \<Rightarrow> Inr []
      | Inr (Some (lit, fo, rest)) \<Rightarrow>
          (case (case fo of None \<Rightarrow> Inr [] | Some f \<Rightarrow> output_markup ext kwargs f) of
             Inl e \<Rightarrow> Inl e
           | Inr out \<Rightarrow>
               (case do_markup ext kwargs rest of
                  Inl e \<Rightarrow> Inl e
                | Inr tail \<Rightarrow> Inr (lit @ out @ tail))))"
  by pat_completeness auto
termination
  by (relation "measure (\<lambda>(ext, kwargs, s). length s)") (auto dest: markup_next_rest)

declare do_markup.simps [simp del]

definition py_format :: "field_renderer \<Rightarrow> string \<Rightarrow> (string \<times> pyval) list \<Rightarrow> pyerr + string" where
  \<comment> \<open>\<open>template.format(**kwargs)\<close>\<close>
  "py_format ext template kwargs = do_markup ext kwargs template"

definition plain_fields_only :: field_renderer where
  \<comment> \<open>A library that refuses every field that is more than a plain name. Format strings
      whose fields are all plain names never reach the renderer, so that they evaluate
      the same with any renderer, this one included.\<close>
  "plain_fields_only kwargs obj accessors conv spec = Inl ValueError"

text \<open>
  The chunks of a format string, each a literal text with the replacement field that
  follows it, as the parser alone cuts them.
\<close>

function markup_chunks :: "string \<Rightarrow> pyerr + (string \<times> replacement_field option) list" where
  "markup_chunks s =
     (case markup_next s of
        Inl e \<Rightarrow> Inl e
      | Inr None \<Rightarrow> Inr []
      | Inr (Some (lit, fo, rest)) \<Rightarrow>
          (case markup_chunks rest of
             Inl e \<Rightarrow> Inl e
           | Inr chunks \<Rightarrow> Inr ((lit, fo) # chunks)))"
  by pat_completeness auto
termination
  by (relation "measure length") (auto dest: markup_next_rest)

declare markup_chunks.simps [simp del]

text \<open>
  What the specification calls a message with all placeholders substituted: the format
  string parses as a whole, every replacement field names a key of the values and its
  value renders, and the message is the literal texts with every field replaced by its
  rendered value.
\<close>

definition substitute_chunk ::
  "field_renderer \<Rightarrow> (string \<times> pyval) list \<Rightarrow> string \<times> replacement_field option \<Rightarrow> string option" where
  "substitute_chunk ext values chunk =
     (case snd chunk of
        None \<Rightarrow> Some (fst chunk)
      | Some f \<Rightarrow>
          (case map_of values (field_key f) of
             None \<Rightarrow> None
           | Some v \<Rightarrow>
               (case render_field ext values f v of
                  Inl e \<Rightarrow> None
                | Inr text \<Rightarrow> Some (fst chunk @ text))))"

definition substitute_all ::
  "field_renderer \<Rightarrow> (string \<times> pyval) list \<Rightarrow> string \<Rightarrow> string option" where
  "substitute_all ext values template =
     (case markup_chunks template of
        Inl e \<Rightarrow> None
      | Inr chunks \<Rightarrow> map_option concat (those (map (substitute_chunk ext values) chunks)))"

section \<open>The payload synthesizer (\<open>generate_test_logs.py\<close>)\<close>

text \<open>
  An attribute of a template is a literal value or a callable; a callable draws from the
  random source. A template is the dict with the keys \<open>severity\<close>,
  \<open>message_template\<close> and \<open>attributes\<close>; a resolved template has the key
  \<open>message\<close> in addition, and concrete attribute values.
\<close>

datatype attr_value = Lit pyval | Gen "rng \<Rightarrow> pyval \<times> rng"

record 'v log_template =
  severity :: "int \<times> string"
  message_template :: string
  attributes :: "(string \<times> 'v) list"

record 'v resolved_template = "'v log_template" +
  message :: string

record generator =
  service_name :: string
  service_version :: string

text \<open>
  The six entries of the catalog that \<open>generate_log_templates\<close> returns, in order.
\<close>

definition login_template :: "attr_value log_template" where
  "login_template =
     \<lparr>severity = (9, ''INFO''),
     message_template = ''User authentication successful for user_id={user_id}'',
     attributes =
       [(''user.id'', Gen (\<lambda>r. case random_randint 10000 99999 r of
                                  (n, r') \<Rightarrow> (VStr (str_of_int n), r'))),
        (''action'', Lit (VStr ''login'')),
        (''ip_address'', Gen (\<lambda>r. case random_randint 1 254 r of
                                  (n, r') \<Rightarrow> (VStr (''192.168.1.'' @ str_of_int n), r'))),
        (''user_agent'', Lit (VStr ''Mozilla/5.0 (compatible; TestClient/1.0)''))]\<rparr>"

definition database_error_template :: "attr_value log_template" where
  "database_error_template =
     \<lparr>severity = (13, ''ERROR''),
     message_template = ''Database connection failed: {error_reason}'',
     attributes =
       [(''database.name'', Gen (\<lambda>r. case random_choice [''user_db'', ''product_db'', ''order_db''] r of
                                  (s, r') \<Rightarrow> (VStr s, r'))),
        (''error.type'', Gen (\<lambda>r. case random_choice [''connection_timeout'', ''auth_failed'', ''network_error''] r of
                                  (s, r') \<Rightarrow> (VStr s, r'))),
        (''retry_count'', Gen (\<lambda>r. case random_randint 1 5 r of
                                  (n, r') \<Rightarrow> (VStr (str_of_int n), r'))),
        (''error_reason'', Gen (\<lambda>r. case random_choice [''timeout after 30s'', ''authentication failed'', ''host unreachable''] r of
                                  (s, r') \<Rightarrow> (VStr s, r')))]\<rparr>"

definition request_template :: "attr_value log_template" where
  "request_template =
     \<lparr>severity = (5, ''DEBUG''),
     message_template = ''Processing request with correlation_id={correlation_id}'',
     attributes =
       [(''correlation_id'', Gen (\<lambda>r. case uuid4_hex r of (h, r') \<Rightarrow> (VStr (take 8 h), r'))),
        (''request.method'', Gen (\<lambda>r. case random_choice [''GET'', ''POST'', ''PUT'', ''DELETE''] r of
                                  (s, r') \<Rightarrow> (VStr s, r'))),
        (''request.path'', Gen (\<lambda>r. case random_choice [''/api/v1/users'', ''/api/v1/orders'', ''/api/v1/products''] r of
                                  (s, r') \<Rightarrow> (VStr s, r'))),
        (''response.status_code'', Gen (\<lambda>r. case random_choice [200, 201, 400, 404, 500] r of
                                  (n, r') \<Rightarrow> (VStr (str_of_int n), r')))]\<rparr>"

definition system_failure_template :: "attr_value log_template" where
  "system_failure_template =
     \<lparr>severity = (17, ''FATAL''),
     message_template = ''Critical system failure: {failure_type}'',
     attributes =
       [(''memory.used'', Gen (\<lambda>r. case random_randint 85 99 r of
                                  (n, r') \<Rightarrow> (VStr (str_of_int n @ ''%''), r'))),
        (''system.component'', Gen (\<lambda>r. case random_choice [''application_server'', ''database'', ''cache_layer''] r of
                                  (s, r') \<Rightarrow> (VStr s, r'))),
        (''failure_type'', Gen (\<lambda>r. case random_choice [''out of memory'', ''disk full'', ''service unavailable''] r of
                                  (s, r') \<Rightarrow> (VStr s, r')))]\<rparr>"

definition slow_response_template :: "attr_value log_template" where
  "slow_response_template =
     \<lparr>severity = (12, ''WARN''),
     message_template = ''High response time detected: {response_time}ms for endpoint {endpoint}'',
     attributes =
       [(''response_time'', Gen (\<lambda>r. case random_randint 1000 5000 r of
                                  (n, r') \<Rightarrow> (VStr (str_of_int n), r'))),
        (''endpoint'', Gen (\<lambda>r. case random_choice [''/api/search'', ''/api/checkout'', ''/api/report''] r of
                                  (s, r') \<Rightarrow> (VStr s, r'))),
        (''threshold'', Lit (VStr ''1000ms'')),
        (''client_id'', Gen (\<lambda>r. case random_randint 1000 9999 r of
                                  (n, r') \<Rightarrow> (VStr (''client_'' @ str_of_int n), r')))]\<rparr>"

definition order_template :: "attr_value log_template" where
  "order_template =
     \<lparr>severity = (9, ''INFO''),
     message_template = ''Order {order_id} processed successfully for customer {customer_id}'',
     attributes =
       [(''order_id'', Gen (\<lambda>r. case random_randint 100000 999999 r of
                                  (n, r') \<Rightarrow> (VStr (''ORD-'' @ str_of_int n), r'))),
        (''customer_id'', Gen (\<lambda>r. case random_randint 10000 99999 r of
                                  (n, r') \<Rightarrow> (VStr (''CUST-'' @ str_of_int n), r'))),
        (''order_amount'', Gen (\<lambda>r. case random_randint 10 1000 r of
                                  (a, r1) \<Rightarrow> (case random_randint 10 99 r1 of
                                  (b, r2) \<Rightarrow> (VStr (''$'' @ str_of_int a @ ''.'' @ str_of_int b), r2)))),
        (''payment_method'', Gen (\<lambda>r. case random_choice [''credit_card'', ''paypal'', ''bank_transfer''] r of
                                  (s, r') \<Rightarrow> (VStr s, r')))]\<rparr>"

definition generate_log_templates :: "attr_value log_template list" where
  "generate_log_templates =
     [login_template,
      database_error_template,
      request_template,
      system_failure_template,
      slow_response_template,
      order_template]"

text \<open>
  The loop of \<open>resolve_template_values\<close> over the items of \<open>template["attributes"]\<close>:
  it fills \<open>resolved_attributes\<close> with every attribute and \<open>format_values\<close> with those
  whose name in braces occurs in the message template.
\<close>

fun resolve_attributes ::
  "string \<Rightarrow> (string \<times> attr_value) list \<Rightarrow> (string \<times> pyval) list \<Rightarrow> (string \<times> pyval) list \<Rightarrow> rng
   \<Rightarrow> ((string \<times> pyval) list \<times> (string \<times> pyval) list) \<times> rng" where
  "resolve_attributes mt [] resolved_attributes format_values r =
     ((resolved_attributes, format_values), r)"
| "resolve_attributes mt ((key, value) # items) resolved_attributes format_values r =
     (case value of
        Gen f \<Rightarrow>
          (case f r of (actual_value, r') \<Rightarrow>
             resolve_attributes mt items
               (AList.update key actual_value resolved_attributes)
               (if sublist (''{'' @ key @ ''}'') mt
                then AList.update key actual_value format_values else format_values)
               r')
      | Lit v \<Rightarrow>
          resolve_attributes mt items
            (AList.update key v resolved_attributes)
            (if sublist (''{'' @ key @ ''}'') mt
             then AList.update key v format_values else format_values)
            r)"

definition resolve_template_values ::
  "field_renderer \<Rightarrow> attr_value log_template \<Rightarrow> rng \<Rightarrow> pyerr + (pyval resolved_template \<times> rng)" where
  \<comment> \<open>Only \<open>KeyError\<close> is caught around \<open>format\<close>; any other exception leaves the function.\<close>
  "resolve_template_values ext template r =
     (case resolve_attributes (message_template template) (attributes template) [] [] r of
        ((resolved_attributes, format_values), r') \<Rightarrow>
          (case py_format ext (message_template template) format_values of
             Inr m \<Rightarrow>
               Inr (\<lparr>severity = severity template,
                     message_template = message_template template,
                     attributes = resolved_attributes, message = m\<rparr>, r')
           | Inl e \<Rightarrow>
               if e = KeyError then
                 Inr (\<lparr>severity = severity template,
                       message_template = message_template template,
                       attributes = resolved_attributes,
                       message = message_template template\<rparr>, r')
               else Inl e))"

definition otlp_attribute :: "string \<times> pyval \<Rightarrow> json" where
  "otlp_attribute kv =
     JObj [(''key'', JStr (fst kv)), (''value'', JObj [(''stringValue'', JStr (py_str (snd kv)))])]"

definition make_log_record :: "pyval resolved_template \<Rightarrow> int \<Rightarrow> nat \<Rightarrow> string \<Rightarrow> string \<Rightarrow> json" where
  \<comment> \<open>The dict \<open>log_record\<close> of iteration \<open>i\<close>.\<close>
  "make_log_record resolved current_time_ns i trace_id span_id =
     JObj [(''timeUnixNano'', JStr (str_of_int (current_time_ns + int i * 1000000))),
           (''observedTimeUnixNano'', JStr (str_of_int (current_time_ns + int i * 1000000))),
           (''severityNumber'', JInt (fst (severity resolved))),
           (''severityText'', JStr (snd (severity resolved))),
           (''body'', JObj [(''stringValue'', JStr (message resolved))]),
           (''attributes'', JList (map otlp_attribute (attributes resolved))),
           (''traceId'', JStr trace_id),
           (''spanId'', JStr span_id),
           (''flags'', JInt 1)]"

text \<open>
  The loop \<open>for i in range(num_logs)\<close> of \<open>generate_otlp_logs\<close>: \<open>i\<close> is the index of
  the iteration and \<open>n\<close> the number of iterations left.
\<close>

fun otlp_log_records ::
  "field_renderer \<Rightarrow> string \<Rightarrow> int \<Rightarrow> nat \<Rightarrow> nat \<Rightarrow> rng \<Rightarrow> pyerr + (json list \<times> rng)" where
  "otlp_log_records ext trace_id current_time_ns i 0 r = Inr ([], r)"
| "otlp_log_records ext trace_id current_time_ns i (Suc n) r =
     (case random_choice generate_log_templates r of
        (template, r1) \<Rightarrow>
          (case resolve_template_values ext template r1 of
             Inl e \<Rightarrow> Inl e
           | Inr (resolved, r2) \<Rightarrow>
               (case uuid4_hex r2 of
                  (h, r3) \<Rightarrow>
                    (case otlp_log_records ext trace_id current_time_ns (Suc i) n r3 of
                       Inl e \<Rightarrow> Inl e
                     | Inr (records, r4) \<Rightarrow>
                         Inr (make_log_record resolved current_time_ns i trace_id (take 16 h)
                                # records, r4)))))"

definition string_attribute :: "string \<Rightarrow> string \<Rightarrow> json" where
  "string_attribute k v = JObj [(''key'', JStr k), (''value'', JObj [(''stringValue'', JStr v)])]"

definition otlp_resource_logs :: "generator \<Rightarrow> string \<Rightarrow> string \<Rightarrow> json list \<Rightarrow> json" where
  \<comment> \<open>The dict that \<open>generate_otlp_logs\<close> returns, for the host number rendered with two
      digits, the deployment environment drawn and the log records.\<close>
  "otlp_resource_logs self host environment log_records =
     JObj [(''resourceLogs'', JList [JObj
        [(''resource'', JObj [(''attributes'', JList
            [string_attribute ''service.name'' (service_name self),
             string_attribute ''service.version'' (service_version self),
             string_attribute ''host.name'' (''host-'' @ host),
             string_attribute ''container.name'' (service_name self @ ''-container''),
             string_attribute ''deployment.environment'' environment])]),
         (''scopeLogs'', JList [JObj
            [(''scope'', JObj [(''name'', JStr (service_name self @ ''-logger'')),
                               (''version'', JStr ''1.0.0'')]),
             (''logRecords'', JList log_records)]])]])]"

definition generate_otlp_logs ::
  "field_renderer \<Rightarrow> generator \<Rightarrow> int \<Rightarrow> string option \<Rightarrow> int \<Rightarrow> rng \<Rightarrow> pyerr + (json \<times> rng)" where
  \<comment> \<open>\<open>current_time_ns\<close> is the reading of the clock, \<open>int(time.time() * 1_000_000_000)\<close>.
      A negative \<open>num_logs\<close> gives an empty \<open>range\<close>.\<close>
  "generate_otlp_logs ext self num_logs trace_id current_time_ns r =
     (case (case trace_id of None \<Rightarrow> uuid4_hex r | Some t \<Rightarrow> (t, r)) of
        (tid, r1) \<Rightarrow>
          (case otlp_log_records ext tid current_time_ns 0 (nat num_logs) r1 of
             Inl e \<Rightarrow> Inl e
           | Inr (log_records, r2) \<Rightarrow>
               (case random_randint 1 10 r2 of
                  (host, r3) \<Rightarrow>
                    (case random_choice [''development'', ''staging'', ''production''] r3 of
                       (environment, r4) \<Rightarrow>
                         Inr (otlp_resource_logs self (zero_pad2 host) environment log_records,
                              r4)))))"

fun json_of_pyval :: "pyval \<Rightarrow> json" where
  "json_of_pyval (VStr s) = JStr s"
| "json_of_pyval (VInt i) = JInt i"

text \<open>
  \<open>generate_structured_logs\<close>; \<open>now i\<close> is the reading of the clock in iteration \<open>i\<close>,
  as \<open>datetime.now(timezone.utc).isoformat()\<close> renders it.
\<close>

fun structured_log_entries ::
  "field_renderer \<Rightarrow> generator \<Rightarrow> (nat \<Rightarrow> string) \<Rightarrow> nat \<Rightarrow> nat \<Rightarrow> rng \<Rightarrow> pyerr + (json list \<times> rng)" where
  "structured_log_entries ext self now i 0 r = Inr ([], r)"
| "structured_log_entries ext self now i (Suc n) r =
     (case random_choice generate_log_templates r of
        (template, r1) \<Rightarrow>
          (case resolve_template_values ext template r1 of
             Inl e \<Rightarrow> Inl e
           | Inr (resolved, r2) \<Rightarrow>
               (case uuid4_hex r2 of
                  (t, r3) \<Rightarrow>
                    (case uuid4_hex r3 of
                       (s, r4) \<Rightarrow>
                         (case structured_log_entries ext self now (Suc i) n r4 of
                            Inl e \<Rightarrow> Inl e
                          | Inr (logs, r5) \<Rightarrow>
                              Inr (JObj [(''timestamp'', JStr (now i)),
                                         (''service_name'', JStr (service_name self)),
                                         (''service_version'', JStr (service_version self)),
                                         (''severity_text'', JStr (snd (severity resolved))),
                                         (''severity_number'', JInt (fst (severity resolved))),
                                         (''message'', JStr (message resolved)),
                                         (''attributes'',
                                            JObj (map (\<lambda>kv. (fst kv, json_of_pyval (snd kv)))
                                                    (attributes resolved))),
                                         (''trace_id'', JStr t),
                                         (''span_id'', JStr (take 16 s))]
                                     # logs, r5))))))"

definition generate_structured_logs ::
  "field_renderer \<Rightarrow> generator \<Rightarrow> int \<Rightarrow> (nat \<Rightarrow> string) \<Rightarrow> rng \<Rightarrow> pyerr + (json list \<times> rng)" where
  "generate_structured_logs ext self num_logs now r =
     structured_log_entries ext self now 0 (nat num_logs) r"

section \<open>HTTP replies and the index verifier (\<open>verify_opensearch_logs.py\<close>)\<close>

text \<open>
  What a call of \<open>requests.get\<close> or \<open>requests.post\<close> gives: a response with its
  status code, its text and the value of \<open>response.json()\<close>, or a
  \<open>requests.RequestException\<close> with its message. The services are a script of
  replies, served one per request in order; a request that finds the script empty fails
  to connect. The state also counts the requests sent. The URL and the query of a request
  are not modelled: the replies do not depend on them.
\<close>

datatype reply = Response int string json | TransportError string

record net =
  pending :: "reply list"
  sent :: nat

definition http_request :: "net \<Rightarrow> reply \<times> net" where
  "http_request n =
     (case pending n of
        [] \<Rightarrow> (TransportError ''connection refused'', n\<lparr>sent := Suc (sent n)\<rparr>)
      | rp # rest \<Rightarrow> (rp, \<lparr>pending = rest, sent = Suc (sent n)\<rparr>))"

definition failed :: "reply \<Rightarrow> bool" where
  \<comment> \<open>The response status is not 200, or a transport-level exception occurred.\<close>
  "failed rp = (case rp of Response status txt body \<Rightarrow> status \<noteq> 200 | TransportError e \<Rightarrow> True)"

fun py_iter :: "json \<Rightarrow> pyerr + json list" where
  \<comment> \<open>\<open>for x in value\<close>: the elements of a list, the keys of a dict, the characters of a
      string; anything else is not iterable.\<close>
  "py_iter (JList xs) = Inr xs"
| "py_iter (JObj kvs) = Inr (map (\<lambda>kv. JStr (fst kv)) kvs)"
| "py_iter (JStr s) = Inr (map (\<lambda>c. JStr [c]) s)"
| "py_iter _ = Inl TypeError"

fun py_contains :: "json \<Rightarrow> string \<Rightarrow> pyerr + bool" where
  \<comment> \<open>\<open>field in value\<close> for a string \<open>field\<close>.\<close>
  "py_contains (JObj kvs) field = Inr (field \<in> fst ` set kvs)"
| "py_contains (JList xs) field = Inr (JStr field \<in> set xs)"
| "py_contains (JStr s) field = Inr (sublist field s)"
| "py_contains _ field = Inl TypeError"

definition check_opensearch_connection :: "net \<Rightarrow> bool \<times> net" where
  "check_opensearch_connection n =
     (case http_request n of
        (Response status txt body, n') \<Rightarrow> (status = 200, n')
      | (TransportError e, n') \<Rightarrow> (False, n'))"

definition get_indices_info :: "net \<Rightarrow> json \<times> net" where
  "get_indices_info n =
     (case http_request n of
        (Response status txt body, n') \<Rightarrow> (if status = 200 then body else JList [], n')
      | (TransportError e, n') \<Rightarrow> (JList [], n'))"

definition search_logs :: "net \<Rightarrow> (bool \<times> json) \<times> net" where
  "search_logs n =
     (case http_request n of
        (Response status txt body, n') \<Rightarrow>
          if status = 200 then ((True, body), n')
          else ((False, JObj [(''error'', JStr (''HTTP '' @ str_of_int status @ '': '' @ txt))]), n')
      | (TransportError e, n') \<Rightarrow> ((False, JObj [(''error'', JStr e)]), n'))"

fun hit_sources :: "json list \<Rightarrow> pyerr + json list" where
  \<comment> \<open>\<open>[hit.get("_source", {}) for hit in hits]\<close>\<close>
  "hit_sources [] = Inr []"
| "hit_sources (hit # hits) =
     (case dict_get hit ''_source'' (JObj []) of
        Inl e \<Rightarrow> Inl e
      | Inr source \<Rightarrow>
          (case hit_sources hits of Inl e \<Rightarrow> Inl e | Inr logs \<Rightarrow> Inr (source # logs)))"

definition result_hits :: "json \<Rightarrow> pyerr + json" where
  \<comment> \<open>\<open>result.get("hits", {}).get("hits", [])\<close>\<close>
  "result_hits result =
     (case dict_get result ''hits'' (JObj []) of
        Inl e \<Rightarrow> Inl e
      | Inr h \<Rightarrow> dict_get h ''hits'' (JList []))"

definition search_sources :: "net \<Rightarrow> (pyerr + bool \<times> json list) \<times> net" where
  \<comment> \<open>The body shared by \<open>search_by_service\<close>, \<open>search_by_severity\<close>,
      \<open>search_by_time_range\<close> and \<open>search_by_trace_id\<close>, which differ in the query.\<close>
  "search_sources n =
     (case search_logs n of
        ((success, result), n') \<Rightarrow>
          if success then
            (case result_hits result of
               Inl e \<Rightarrow> (Inl e, n')
             | Inr hits \<Rightarrow>
                 (case py_iter hits of
                    Inl e \<Rightarrow> (Inl e, n')
                  | Inr hs \<Rightarrow>
                      (case hit_sources hs of
                         Inl e \<Rightarrow> (Inl e, n')
                       | Inr logs \<Rightarrow> (Inr (True, logs), n'))))
          else (Inr (False, []), n'))"

definition search_by_service :: "net \<Rightarrow> (pyerr + bool \<times> json list) \<times> net" where
  "search_by_service = search_sources"

definition search_by_severity :: "net \<Rightarrow> (pyerr + bool \<times> json list) \<times> net" where
  "search_by_severity = search_sources"

definition search_by_time_range :: "net \<Rightarrow> (pyerr + bool \<times> json list) \<times> net" where
  "search_by_time_range = search_sources"

definition search_by_trace_id :: "net \<Rightarrow> (pyerr + bool \<times> json list) \<times> net" where
  "search_by_trace_id = search_sources"

text \<open>
  The dict that \<open>get_log_statistics\<close> returns: \<open>{"error": message}\<close>, or the statistics
  with \<open>total_logs\<close> and the two distributions. A distribution is a dict from bucket
  keys to document counts.
\<close>

datatype statistics =
    StatisticsError string
  | Statistics (total_logs: json) (severity_distribution: "(json \<times> json) list")
      (service_distribution: "(json \<times> json) list")

definition total_count :: "json \<Rightarrow> json" where
  \<comment> \<open>\<open>total_logs.get("value", 0) if isinstance(total_logs, dict) else total_logs\<close>\<close>
  "total_count hit_total =
     (case hit_total of
        JObj kvs \<Rightarrow> (case map_of kvs ''value'' of None \<Rightarrow> JInt 0 | Some v \<Rightarrow> v)
      | _ \<Rightarrow> hit_total)"

fun hashable :: "json \<Rightarrow> bool" where
  "hashable (JList xs) = False"
| "hashable (JObj kvs) = False"
| "hashable _ = True"

fun key_value :: "json \<Rightarrow> json" where
  \<comment> \<open>Dict keys compare as Python values: \<open>True\<close> and 1, \<open>False\<close> and 0 are one key.\<close>
  "key_value (JBool b) = JInt (if b then 1 else 0)"
| "key_value k = k"

fun py_dict_set :: "json \<Rightarrow> json \<Rightarrow> (json \<times> json) list \<Rightarrow> (json \<times> json) list" where
  \<comment> \<open>\<open>d[k] = v\<close>: an equal key keeps its place and its first spelling.\<close>
  "py_dict_set k v [] = [(k, v)]"
| "py_dict_set k v (p # ps) =
     (if key_value (fst p) = key_value k then (fst p, v) # ps else p # py_dict_set k v ps)"

fun add_buckets :: "json list \<Rightarrow> (json \<times> json) list \<Rightarrow> pyerr + (json \<times> json) list" where
  \<comment> \<open>\<open>for bucket in buckets: distribution[bucket["key"]] = bucket["doc_count"]\<close>\<close>
  "add_buckets [] distribution = Inr distribution"
| "add_buckets (bucket # buckets) distribution =
     (case dict_item bucket ''doc_count'' of
        Inl e \<Rightarrow> Inl e
      | Inr doc_count \<Rightarrow>
          (case dict_item bucket ''key'' of
             Inl e \<Rightarrow> Inl e
           | Inr k \<Rightarrow>
               if hashable k then add_buckets buckets (py_dict_set k doc_count distribution)
               else Inl TypeError))"

definition distribution_of :: "json \<Rightarrow> string \<Rightarrow> pyerr + (json \<times> json) list" where
  \<comment> \<open>The buckets of one aggregation, \<open>aggs.get(name, {}).get("buckets", [])\<close>, collected
      into a dict.\<close>
  "distribution_of aggs name =
     (case dict_get aggs name (JObj []) of
        Inl e \<Rightarrow> Inl e
      | Inr agg \<Rightarrow>
          (case dict_get agg ''buckets'' (JList []) of
             Inl e \<Rightarrow> Inl e
           | Inr buckets \<Rightarrow>
               (case py_iter buckets of
                  Inl e \<Rightarrow> Inl e
                | Inr bs \<Rightarrow> add_buckets bs [])))"

definition get_log_statistics :: "net \<Rightarrow> (pyerr + statistics) \<times> net" where
  "get_log_statistics n =
     (case search_logs n of
        ((success, result), n1) \<Rightarrow>
          if \<not> success then (Inr (StatisticsError ''Failed to get log statistics''), n1)
          else
            (case dict_get result ''hits'' (JObj []) of
               Inl e \<Rightarrow> (Inl e, n1)
             | Inr hits \<Rightarrow>
                 (case dict_get hits ''total'' (JObj []) of
                    Inl e \<Rightarrow> (Inl e, n1)
                  | Inr total_hits \<Rightarrow>
                      (case search_logs n1 of
                         ((success2, agg_result), n2) \<Rightarrow>
                           if \<not> success2 then (Inr (Statistics (total_count total_hits) [] []), n2)
                           else
                             (case dict_get agg_result ''aggregations'' (JObj []) of
                                Inl e \<Rightarrow> (Inl e, n2)
                              | Inr aggs \<Rightarrow>
                                  (case distribution_of aggs ''severity_distribution'' of
                                     Inl e \<Rightarrow> (Inl e, n2)
                                   | Inr by_severity \<Rightarrow>
                                       (case distribution_of aggs ''service_distribution'' of
                                          Inl e \<Rightarrow> (Inl e, n2)
                                        | Inr by_service \<Rightarrow>
                                            (Inr (Statistics (total_count total_hits) by_severity by_service),
                                             n2))))))))"

text \<open>
  \<open>verify_log_fields\<close>. The statistics of a field are its dict with the keys
  \<open>present\<close>, \<open>missing\<close> and \<open>sample_values\<close>; \<open>field_stats\<close> is the dict from
  field names to them. The result is \<open>{"error": message}\<close>, or the dict with
  \<open>total_logs_checked\<close> and \<open>field_statistics\<close>. The builtin \<open>str\<close> on a JSON value,
  which renders the sample values, is a parameter.
\<close>

record field_stat =
  present :: nat
  missing :: nat
  sample_values :: "string list"

datatype verification =
    VerificationError string
  | Verification (total_logs_checked: nat) (field_statistics: "(string \<times> field_stat) list")

fun init_field_stats :: "string list \<Rightarrow> (string \<times> field_stat) list \<Rightarrow> (string \<times> field_stat) list" where
  "init_field_stats [] field_stats = field_stats"
| "init_field_stats (field # others) field_stats =
     init_field_stats others
       (AList.update field \<lparr>present = 0, missing = 0, sample_values = []\<rparr> field_stats)"

definition count_present ::
  "(json \<Rightarrow> string) \<Rightarrow> string \<Rightarrow> json \<Rightarrow> (string \<times> field_stat) list
   \<Rightarrow> pyerr + (string \<times> field_stat) list" where
  "count_present str field v field_stats =
     (case map_of field_stats field of
        None \<Rightarrow> Inl KeyError
      | Some st \<Rightarrow>
          Inr (AList.update field
                 (st\<lparr>present := present st + 1,
                     sample_values :=
                       (if length (sample_values st) < 3 then sample_values st @ [str v]
                        else sample_values st)\<rparr>)
                 field_stats))"

definition count_missing ::
  "string \<Rightarrow> (string \<times> field_stat) list \<Rightarrow> pyerr + (string \<times> field_stat) list" where
  "count_missing field field_stats =
     (case map_of field_stats field of
        None \<Rightarrow> Inl KeyError
      | Some st \<Rightarrow> Inr (AList.update field (st\<lparr>missing := missing st + 1\<rparr>) field_stats))"

text \<open>The inner loop, over the required fields, for the source of one hit.\<close>

fun check_fields ::
  "(json \<Rightarrow> string) \<Rightarrow> json \<Rightarrow> string list \<Rightarrow> (string \<times> field_stat) list
   \<Rightarrow> pyerr + (string \<times> field_stat) list" where
  "check_fields str source [] field_stats = Inr field_stats"
| "check_fields str source (field # others) field_stats =
     (case py_contains source field of
        Inl e \<Rightarrow> Inl e
      | Inr False \<Rightarrow>
          (case count_missing field field_stats of
             Inl e \<Rightarrow> Inl e
           | Inr fs \<Rightarrow> check_fields str source others fs)
      | Inr True \<Rightarrow>
          (case dict_item source field of
             Inl e \<Rightarrow> Inl e
           | Inr v \<Rightarrow>
               (case (if v \<noteq> JNull then count_present str field v field_stats
                      else count_missing field field_stats) of
                  Inl e \<Rightarrow> Inl e
                | Inr fs \<Rightarrow> check_fields str source others fs)))"

text \<open>The outer loop, over the hits.\<close>

fun check_hits ::
  "(json \<Rightarrow> string) \<Rightarrow> string list \<Rightarrow> json list \<Rightarrow> (string \<times> field_stat) list
   \<Rightarrow> pyerr + (string \<times> field_stat) list" where
  "check_hits str required_fields [] field_stats = Inr field_stats"
| "check_hits str required_fields (hit # hits) field_stats =
     (case dict_get hit ''_source'' (JObj []) of
        Inl e \<Rightarrow> Inl e
      | Inr source \<Rightarrow>
          (case check_fields str source required_fields field_stats of
             Inl e \<Rightarrow> Inl e
           | Inr fs \<Rightarrow> check_hits str required_fields hits fs))"

definition verify_log_fields ::
  "(json \<Rightarrow> string) \<Rightarrow> string list \<Rightarrow> net \<Rightarrow> (pyerr + verification) \<times> net" where
  \<comment> \<open>\<open>sample_size\<close> only enters the query. \<open>len(hits)\<close> is the number of items that the
      loop iterates over, for a list, a dict and a string alike.\<close>
  "verify_log_fields str required_fields n =
     (case search_logs n of
        ((success, result), n') \<Rightarrow>
          if \<not> success then
            (Inr (VerificationError ''Failed to retrieve logs for field verification''), n')
          else
            (case result_hits result of
               Inl e \<Rightarrow> (Inl e, n')
             | Inr hits \<Rightarrow>
                 if \<not> truthy hits then
                   (Inr (VerificationError ''No logs found for verification''), n')
                 else
                   (case py_iter hits of
                      Inl e \<Rightarrow> (Inl e, n')
                    | Inr hs \<Rightarrow>
                        (case check_hits str required_fields hs
                                (init_field_stats required_fields []) of
                           Inl e \<Rightarrow> (Inl e, n')
                         | Inr field_stats \<Rightarrow>
                             (Inr (Verification (length hs) field_stats), n')))))"

definition delete_logs_by_service :: "net \<Rightarrow> bool \<times> net" where
  "delete_logs_by_service n =
     (case http_request n of
        (Response status txt body, n') \<Rightarrow> (status = 200, n')
      | (TransportError e, n') \<Rightarrow> (False, n'))"

definition field_present :: "json \<Rightarrow> string \<Rightarrow> bool" where
  \<comment> \<open>The field exists in the source of the document with a non-null value.\<close>
  "field_present hit field =
     (case hit of
        JObj kvs \<Rightarrow>
          (case map_of kvs ''_source'' of
             Some (JObj source) \<Rightarrow>
               (case map_of source field of None \<Rightarrow> False | Some v \<Rightarrow> v \<noteq> JNull)
           | _ \<Rightarrow> False)
      | _ \<Rightarrow> False)"

section \<open>The integration test (\<open>test_integration.py\<close>)\<close>

text \<open>
  \<open>wait_for_service\<close> polls a health endpoint: \<open>attempts\<close> is the number of attempts
  left of \<open>max_attempts\<close>. The pause between attempts is not modelled.
\<close>

fun wait_for_service :: "nat \<Rightarrow> net \<Rightarrow> bool \<times> net" where
  "wait_for_service 0 n = (False, n)"
| "wait_for_service (Suc attempts) n =
     (case http_request n of
        (Response status txt body, n') \<Rightarrow>
          if status = 200 then (True, n') else wait_for_service attempts n'
      | (TransportError e, n') \<Rightarrow> wait_for_service attempts n')"

definition send_test_logs :: "net \<Rightarrow> bool \<times> net" where
  \<comment> \<open>The payload is built before the request and does not enter the result.\<close>
  "send_test_logs n =
     (case http_request n of
        (Response status txt body, n') \<Rightarrow> (status = 200, n')
      | (TransportError e, n') \<Rightarrow> (False, n'))"

definition refresh_opensearch_indices :: "net \<Rightarrow> bool \<times> net" where
  "refresh_opensearch_indices n =
     (case http_request n of
        (Response status txt body, n') \<Rightarrow> (status = 200, n')
      | (TransportError e, n') \<Rightarrow> (False, n'))"

definition cleanup_test_data :: "net \<Rightarrow> bool \<times> net" where
  \<comment> \<open>Any response counts as a completed cleanup; only an exception is a failure.\<close>
  "cleanup_test_data n =
     (case http_request n of
        (Response status txt body, n') \<Rightarrow> (True, n')
      | (TransportError e, n') \<Rightarrow> (False, n'))"

section \<open>The error-handling test (\<open>test-error-handling.py\<close>)\<close>

text \<open>
  The methods of \<open>DataPrepperErrorTester\<close> catch every exception (\<open>except Exception\<close>),
  also those raised while the response is inspected.
\<close>

fun check_services_loop :: "nat \<Rightarrow> bool \<Rightarrow> net \<Rightarrow> bool \<times> net" where
  \<comment> \<open>The loop over the services left to check: a service is healthy when its status is
      below 400.\<close>
  "check_services_loop 0 all_healthy n = (all_healthy, n)"
| "check_services_loop (Suc services) all_healthy n =
     (case http_request n of
        (Response status txt body, n') \<Rightarrow>
          check_services_loop services (if status < 400 then all_healthy else False) n'
      | (TransportError e, n') \<Rightarrow> check_services_loop services False n')"

definition check_services :: "net \<Rightarrow> bool \<times> net" where
  \<comment> \<open>The OTEL collector, Data Prepper and OpenSearch, in this order.\<close>
  "check_services n = check_services_loop 3 True n"

definition send_test_log :: "net \<Rightarrow> bool \<times> net" where
  "send_test_log n =
     (case http_request n of
        (Response status txt body, n') \<Rightarrow> (status = 200, n')
      | (TransportError e, n') \<Rightarrow> (False, n'))"

definition check_opensearch_logs :: "net \<Rightarrow> json \<times> net" where
  \<comment> \<open>\<open>data["hits"]["total"]["value"]\<close> is read for the log line; when it raises, the
      handler returns the empty dict.\<close>
  "check_opensearch_logs n =
     (case http_request n of
        (Response status txt data, n') \<Rightarrow>
          if status = 200 then
            (case dict_item data ''hits'' of
               Inl e \<Rightarrow> (JObj [], n')
             | Inr hits \<Rightarrow>
                 (case dict_item hits ''total'' of
                    Inl e \<Rightarrow> (JObj [], n')
                  | Inr total_hits \<Rightarrow>
                      (case dict_item total_hits ''value'' of
                         Inl e \<Rightarrow> (JObj [], n')
                       | Inr v \<Rightarrow> (data, n'))))
          else (JObj [], n')
      | (TransportError e, n') \<Rightarrow> (JObj [], n'))"

definition is_dlq_line :: "string \<Rightarrow> bool" where
  \<comment> \<open>\<open>'dlq' in line.lower() or 'error' in line.lower()\<close>\<close>
  "is_dlq_line line = (sublist ''dlq'' (py_lower line) \<or> sublist ''error'' (py_lower line))"

fun parse_dlq_metrics :: "string list \<Rightarrow> (string \<times> string) list \<Rightarrow> (string \<times> string) list" where
  \<comment> \<open>The loop over the lines of the metrics text, filling \<open>dlq_metrics\<close>.\<close>
  "parse_dlq_metrics [] dlq_metrics = dlq_metrics"
| "parse_dlq_metrics (line # lines) dlq_metrics =
     (if is_dlq_line line then
        (if prefix ''#'' line then parse_dlq_metrics lines dlq_metrics
         else if CHR '' '' \<in> set line then
           parse_dlq_metrics lines
             (AList.update (split_on CHR '' '' line ! 0) (split_on CHR '' '' line ! 1) dlq_metrics)
         else parse_dlq_metrics lines dlq_metrics)
      else parse_dlq_metrics lines dlq_metrics)"

definition check_dlq_metrics :: "net \<Rightarrow> (string \<times> string) list \<times> net" where
  "check_dlq_metrics n =
     (case http_request n of
        (Response status metrics_text body, n') \<Rightarrow>
          if status = 200 then (parse_dlq_metrics (split_on (CHR 0x0A) metrics_text) [], n')
          else ([], n')
      | (TransportError e, n') \<Rightarrow> ([], n'))"

section \<open>Notions of the statements\<close>

definition source_present :: "json \<Rightarrow> string \<Rightarrow> bool" where
  \<comment> \<open>The field is a key of the source dict, with a non-null value.\<close>
  "source_present source field =
     (case source of
        JObj kvs \<Rightarrow> (case map_of kvs field of None \<Rightarrow> False | Some v \<Rightarrow> v \<noteq> JNull)
      | _ \<Rightarrow> False)"

definition tally ::
  "(string \<times> field_stat) list \<Rightarrow> (string \<times> field_stat) list \<Rightarrow> string \<Rightarrow> nat \<Rightarrow> nat \<Rightarrow> bool" where
  \<comment> \<open>From \<open>fs\<close> to \<open>fs'\<close> the counters of field \<open>f\<close> grew by \<open>p\<close> (present) and
      \<open>m\<close> (missing).\<close>
  "tally fs fs' f p m =
     (case map_of fs f of
        None \<Rightarrow> map_of fs' f = None
      | Some st \<Rightarrow>
          (\<exists>st'. map_of fs' f = Some st' \<and> present st' = present st + p
                \<and> missing st' = missing st + m))"

definition str_of_scalar :: "json \<Rightarrow> string" where
  \<comment> \<open>\<open>str(value)\<close> for a string or an integer, the types of the values in the
      evaluated instances.\<close>
  "str_of_scalar v = (case v of JStr s \<Rightarrow> s | JInt i \<Rightarrow> str_of_int i | _ \<Rightarrow> [])"

definition benign_second_reply :: "reply list \<Rightarrow> bool" where
  \<comment> \<open>The reply to the aggregation request of \<open>get_log_statistics\<close> is a failure, or a
      response without aggregations, as a mocked count response is.\<close>
  "benign_second_reply rest =
     (case rest of
        [] \<Rightarrow> True
      | Response status tx body # more_replies \<Rightarrow>
          status \<noteq> 200 \<or> dict_get body ''aggregations'' (JObj []) = Inr (JObj [])
      | TransportError e # more_replies \<Rightarrow> True)"

definition first_space_split :: "string \<Rightarrow> string \<times> string" where
  \<comment> \<open>A line split on its first space into a name and the rest of the line.\<close>
  "first_space_split line =
     (takeWhile (\<lambda>c. c \<noteq> CHR '' '') line, drop 1 (dropWhile (\<lambda>c. c \<noteq> CHR '' '') line))"

definition claimed_dlq_metrics :: "string \<Rightarrow> string \<rightharpoonup> string" where
  \<comment> \<open>The mapping as the specification words it: every line that does not start with
      \<open>#\<close> and contains a keyword, split on its first space; later lines win.\<close>
  "claimed_dlq_metrics metrics_text =
     map_of (rev (map first_space_split
       (filter (\<lambda>line. \<not> prefix ''#'' line \<and> is_dlq_line line)
          (split_on (CHR 0x0A) metrics_text))))"

definition batch_trace_id :: "string option \<Rightarrow> rng \<Rightarrow> string" where
  \<comment> \<open>The trace identifier of a batch: the one supplied, or else the UUID made of the
      first draw.\<close>
  "batch_trace_id trace_id r = (case trace_id of None \<Rightarrow> uuid4_of (r 0) | Some t \<Rightarrow> t)"

section \<open>Evaluation rules\<close>

text \<open>
  Rules that evaluate the recursive functions on closed terms only, for the concrete
  instances below.
\<close>

lemma str_of_nat_digit: "n < 10 \<Longrightarrow> str_of_nat n = [digit_char n]"
  by (simp add: str_of_nat.simps)

lemma str_of_nat_step: "\<not> n < 10 \<Longrightarrow> str_of_nat n = str_of_nat (n div 10) @ [digit_char (n mod 10)]"
  by (subst str_of_nat.simps) simp

lemma do_markup_Nil: "do_markup ext kw [] = Inr []"
  by (simp add: do_markup.simps markup_next_def)

lemmas do_markup_Cons = do_markup.simps [of _ _ "c # cs" for c cs]

lemma markup_chunks_Nil: "markup_chunks [] = Inr []"
  by (simp add: markup_chunks.simps markup_next_def)

lemmas markup_chunks_Cons = markup_chunks.simps [of "c # cs" for c cs]

lemmas str_eval = str_of_int_def str_of_nat_digit str_of_nat_step digit_char_def

lemmas format_eval = py_format_def do_markup_Nil do_markup_Cons markup_next_def parse_field_def
  parse_spec_def output_markup_def get_field_object_def render_field_def field_key_def
  field_accessors_def get_integer_def is_brace_def is_digit_def is_accessor_start_def
  PY_SSIZE_T_MAX_def digit_val_def Let_def

lemmas random_eval = random_choice_def random_randint_def draw_def

lemmas catalog_defs = login_template_def database_error_template_def request_template_def
  system_failure_template_def slow_response_template_def order_template_def

lemma hex_digits_numeral:
  "hex_digits (numeral k) n = hex_digits (pred_numeral k) (n div 16) @ [digit_char (n mod 16)]"
  by (simp only: numeral_eq_Suc [of k] hex_digits.simps)

lemma list_update_numeral:
  "(x # xs)[numeral k := y] = x # xs[pred_numeral k := y]"
  by (simp only: numeral_eq_Suc [of k] list_update_code)

lemmas uuid4_of_numeral = uuid4_of_def [of "numeral k" for k]

lemmas uuid4_of_0 = uuid4_of_def [of 0]

lemmas uuid_eval = uuid4_hex_def uuid4_of_numeral uuid4_of_0 hex_digits_numeral list_update_numeral

lemma catalog_nth:
  "generate_log_templates ! 0 = login_template"
  "generate_log_templates ! 1 = database_error_template"
  "length generate_log_templates = 6"
  by (simp_all add: generate_log_templates_def)


section \<open>Verification: message formatting\<close>

lemma output_markup_Inr:
  "output_markup ext kw f = Inr rendered \<Longrightarrow>
     \<exists>v. map_of kw (field_key f) = Some v \<and> render_field ext kw f v = Inr rendered"
  by (auto simp: output_markup_def get_field_object_def split: sum.splits option.splits if_splits)

lemma do_markup_chunks:
  "do_markup ext kw s = Inr out \<Longrightarrow>
     \<exists>chunks outs. markup_chunks s = Inr chunks
        \<and> those (map (substitute_chunk ext kw) chunks) = Some outs \<and> out = concat outs"
proof (induction ext kw s arbitrary: out rule: do_markup.induct)
  case (1 ext kw s)
  show ?case
  proof (cases "markup_next s")
    case (Inl e)
    with "1.prems" show ?thesis by (simp add: do_markup.simps [of ext kw s])
  next
    case (Inr nxt)
    show ?thesis
    proof (cases nxt)
      case None
      with Inr "1.prems" show ?thesis
        by (simp add: do_markup.simps [of ext kw s] markup_chunks.simps [of s])
    next
      case (Some triple)
      obtain lit fo rest where triple: "triple = (lit, fo, rest)" by (cases triple)
      from "1.prems" Inr Some triple obtain rendered tail where
        rendered: "(case fo of None \<Rightarrow> Inr [] | Some f \<Rightarrow> output_markup ext kw f) = Inr rendered"
        and tail: "do_markup ext kw rest = Inr tail"
        and out: "out = lit @ rendered @ tail"
        by (auto simp: do_markup.simps [of ext kw s] split: sum.splits)
      from "1.IH" [OF Inr Some triple [symmetric] refl rendered tail]
      obtain chunks outs where chunks: "markup_chunks rest = Inr chunks"
        and outs: "those (map (substitute_chunk ext kw) chunks) = Some outs"
        and tail_eq: "tail = concat outs"
        by blast
      have here: "substitute_chunk ext kw (lit, fo) = Some (lit @ rendered)"
      proof (cases fo)
        case None
        with rendered show ?thesis by (simp add: substitute_chunk_def)
      next
        case (Some f)
        with rendered obtain v where "map_of kw (field_key f) = Some v"
          and "render_field ext kw f v = Inr rendered"
          by (auto dest: output_markup_Inr)
        with Some show ?thesis by (simp add: substitute_chunk_def)
      qed
      have "markup_chunks s = Inr ((lit, fo) # chunks)"
        using Inr Some triple chunks by (simp add: markup_chunks.simps [of s])
      moreover have "those (map (substitute_chunk ext kw) ((lit, fo) # chunks)) = Some ((lit @ rendered) # outs)"
        using here outs by simp
      moreover have "out = concat ((lit @ rendered) # outs)"
        using out tail_eq by simp
      ultimately show ?thesis by blast
    qed
  qed
qed

lemma py_format_substitute_all:
  "py_format ext template kw = Inr out \<Longrightarrow> substitute_all ext kw template = Some out"
  unfolding py_format_def substitute_all_def
  by (auto dest!: do_markup_chunks)

lemma resolve_attributes_sub:
  "resolve_attributes mt items ra fv r = ((ra', fv'), r') \<Longrightarrow>
   (\<forall>k v. map_of fv k = Some v \<longrightarrow> map_of ra k = Some v \<and> sublist (''{'' @ k @ ''}'') mt) \<Longrightarrow>
   (\<forall>k v. map_of fv' k = Some v \<longrightarrow> map_of ra' k = Some v \<and> sublist (''{'' @ k @ ''}'') mt)"
proof (induction mt items ra fv r rule: resolve_attributes.induct)
  case (1 mt ra fv r)
  then show ?case by simp
next
  case (2 mt key "value" items ra fv r)
  let ?hit = "sublist (''{'' @ key @ ''}'') mt"
  show ?case
  proof (cases "value")
    case (Lit v)
    from "2.prems"(1) Lit have step:
      "resolve_attributes mt items (AList.update key v ra)
         (if ?hit then AList.update key v fv else fv) r = ((ra', fv'), r')"
      by simp
    have inv: "\<forall>k w. map_of (if ?hit then AList.update key v fv else fv) k = Some w
        \<longrightarrow> map_of (AList.update key v ra) k = Some w \<and> sublist (''{'' @ k @ ''}'') mt"
      using "2.prems"(2) by (auto simp: update_conv')
    show ?thesis by (rule "2.IH"(1) [OF Lit step inv])
  next
    case (Gen f)
    obtain av r1 where f: "f r = (av, r1)" by (cases "f r")
    from "2.prems"(1) Gen f have step:
      "resolve_attributes mt items (AList.update key av ra)
         (if ?hit then AList.update key av fv else fv) r1 = ((ra', fv'), r')"
      by simp
    have inv: "\<forall>k w. map_of (if ?hit then AList.update key av fv else fv) k = Some w
        \<longrightarrow> map_of (AList.update key av ra) k = Some w \<and> sublist (''{'' @ k @ ''}'') mt"
      using "2.prems"(2) by (auto simp: update_conv')
    show ?thesis by (rule "2.IH"(2) [OF Gen f [symmetric] step inv])
  qed
qed

text \<open>
  C3. Whenever \<open>resolve_template_values\<close> returns, the message is either the template
  text unchanged, or the template with every replacement field substituted: the format
  string parses as a whole and each of its fields is replaced by the rendering of the
  resolved attribute of that name. No message has some fields substituted and others
  left in place.
\<close>

theorem resolve_template_values_all_or_nothing:
  assumes "resolve_template_values ext t r = Inr (res, r')"
  shows "message res = message_template t \<or>
         (\<exists>values. (\<forall>k v. map_of values k = Some v \<longrightarrow> map_of (attributes res) k = Some v)
            \<and> substitute_all ext values (message_template t) = Some (message res))"
proof -
  obtain ra fv r1 where ra: "resolve_attributes (message_template t) (attributes t) [] [] r = ((ra, fv), r1)"
    by (metis prod.exhaust)
  have sub: "\<forall>k v. map_of fv k = Some v \<longrightarrow> map_of ra k = Some v"
    using resolve_attributes_sub [OF ra] by simp
  show ?thesis
  proof (cases "py_format ext (message_template t) fv")
    case (Inl e)
    with assms ra show ?thesis
      by (auto simp: resolve_template_values_def split: if_splits)
  next
    case (Inr m)
    with assms ra have "message res = m" "attributes res = ra"
      by (auto simp: resolve_template_values_def)
    with py_format_substitute_all [OF Inr] sub show ?thesis by blast
  qed
qed

lemma eval_resolve_1:
  "resolve_template_values plain_fields_only database_error_template (\<lambda>i. 0) =
     Inr (\<lparr>severity = (13, ''ERROR''),
           message_template = ''Database connection failed: {error_reason}'',
           attributes = [(''database.name'', VStr ''user_db''),
                         (''error.type'', VStr ''connection_timeout''),
                         (''retry_count'', VStr ''1''),
                         (''error_reason'', VStr ''timeout after 30s'')],
           message = ''Database connection failed: timeout after 30s''\<rparr>, \<lambda>i. 0)"
  by (simp add: database_error_template_def resolve_template_values_def random_eval str_eval
        sublist_Cons_right format_eval)

theorem resolve_template_values_all_or_nothing_witness:
  "message \<lparr>severity = (13, ''ERROR''),
            message_template = ''Database connection failed: {error_reason}'',
            attributes = [(''database.name'', VStr ''user_db''),
                          (''error.type'', VStr ''connection_timeout''),
                          (''retry_count'', VStr ''1''),
                          (''error_reason'', VStr ''timeout after 30s'')],
            message = ''Database connection failed: timeout after 30s''\<rparr>
     = message_template database_error_template
   \<or> (\<exists>values.
        (\<forall>k v. map_of values k = Some v \<longrightarrow>
           map_of (attributes \<lparr>severity = (13, ''ERROR''),
                    message_template = ''Database connection failed: {error_reason}'',
                    attributes = [(''database.name'', VStr ''user_db''),
                                  (''error.type'', VStr ''connection_timeout''),
                                  (''retry_count'', VStr ''1''),
                                  (''error_reason'', VStr ''timeout after 30s'')],
                    message = ''Database connection failed: timeout after 30s''\<rparr>) k = Some v)
        \<and> substitute_all plain_fields_only values (message_template database_error_template)
            = Some (message \<lparr>severity = (13, ''ERROR''),
                    message_template = ''Database connection failed: {error_reason}'',
                    attributes = [(''database.name'', VStr ''user_db''),
                                  (''error.type'', VStr ''connection_timeout''),
                                  (''retry_count'', VStr ''1''),
                                  (''error_reason'', VStr ''timeout after 30s'')],
                    message = ''Database connection failed: timeout after 30s''\<rparr>))"
  by (rule resolve_template_values_all_or_nothing [OF eval_resolve_1])

text \<open>
  C4 (as amended). \<open>resolve_template_values\<close> never raises \<open>KeyError\<close>: when the
  substitution fails with a \<open>KeyError\<close> (a replacement field names no formatting
  value), the function returns, and the message is the template text verbatim.
\<close>

theorem resolve_template_values_key_error_fallback:
  "resolve_template_values ext t r \<noteq> Inl KeyError \<and>
   (\<forall>ra fv r'.
      resolve_attributes (message_template t) (attributes t) [] [] r = ((ra, fv), r') \<longrightarrow>
      py_format ext (message_template t) fv = Inl KeyError \<longrightarrow>
      resolve_template_values ext t r =
        Inr (\<lparr>severity = severity t, message_template = message_template t,
              attributes = ra, message = message_template t\<rparr>, r'))"
  by (auto simp: resolve_template_values_def split: prod.splits sum.splits)

lemma eval_resolve_attributes_0:
  "resolve_attributes (message_template login_template)
     (attributes login_template) [] [] (\<lambda>i. 0) =
   (([(''user.id'', VStr ''10000''), (''action'', VStr ''login''),
      (''ip_address'', VStr ''192.168.1.1''),
      (''user_agent'', VStr ''Mozilla/5.0 (compatible; TestClient/1.0)'')], []), \<lambda>i. 0)"
  by (simp add: login_template_def random_eval str_eval sublist_Cons_right)

lemma eval_format_0:
  "py_format plain_fields_only (message_template login_template) [] = Inl KeyError"
  by (simp add: login_template_def format_eval)

theorem resolve_template_values_key_error_fallback_witness:
  "resolve_template_values plain_fields_only login_template (\<lambda>i. 0) =
     Inr (\<lparr>severity = (9, ''INFO''),
           message_template = ''User authentication successful for user_id={user_id}'',
           attributes = [(''user.id'', VStr ''10000''), (''action'', VStr ''login''),
                         (''ip_address'', VStr ''192.168.1.1''),
                         (''user_agent'', VStr ''Mozilla/5.0 (compatible; TestClient/1.0)'')],
           message = ''User authentication successful for user_id={user_id}''\<rparr>, \<lambda>i. 0)"
  using resolve_template_values_key_error_fallback
          [of plain_fields_only login_template "\<lambda>i. 0"]
        eval_resolve_attributes_0 eval_format_0
  by (simp add: login_template_def)

text \<open>
  C4 as stated fails: only \<open>KeyError\<close> is caught. A template with a single opening
  brace makes \<open>format\<close> raise \<open>ValueError\<close>, one with an automatically numbered
  field \<open>{}\<close> makes it raise \<open>IndexError\<close>, and both exceptions leave
  \<open>resolve_template_values\<close>.
\<close>

theorem resolve_template_values_raises_counterexample:
  "resolve_template_values plain_fields_only
     \<lparr>severity = (9, ''INFO''), message_template = ''disk {'', attributes = []\<rparr> (\<lambda>i. 0)
     = Inl ValueError
   \<and> resolve_template_values plain_fields_only
     \<lparr>severity = (9, ''INFO''), message_template = ''user {}'', attributes = []\<rparr> (\<lambda>i. 0)
     = Inl IndexError"
  by (simp add: resolve_template_values_def format_eval)

section \<open>Verification: the payload synthesizer\<close>

lemma advance_0 [simp]: "advance 0 r = r"
  by (simp add: advance_def)

lemma advance_advance [simp]: "advance a (advance b r) = advance (a + b) r"
  by (simp add: advance_def add.assoc)

lemma advance_apply: "advance k r i = r (i + k)"
  by (simp add: advance_def)

lemma draw_advance: "draw r = (r 0, advance 1 r)"
  by (simp add: draw_def advance_def)

lemma random_choice_advance: "random_choice xs r = (xs ! (r 0 mod length xs), advance 1 r)"
  by (simp add: random_choice_def draw_advance)

lemma random_randint_advance:
  "random_randint a b r = (a + int (r 0 mod nat (b - a + 1)), advance 1 r)"
  by (simp add: random_randint_def draw_advance)

lemma uuid4_hex_advance: "uuid4_hex r = (uuid4_of (r 0), advance 1 r)"
  by (simp add: uuid4_hex_def draw_advance)

lemmas random_advance = random_choice_advance random_randint_advance uuid4_hex_advance

lemma random_choice_catalog:
  "random_choice generate_log_templates r = (tmpl, r1) \<Longrightarrow>
     tmpl \<in> set generate_log_templates \<and> r1 = advance 1 r"
proof -
  assume a: "random_choice generate_log_templates r = (tmpl, r1)"
  have "length generate_log_templates = 6" by (simp add: generate_log_templates_def)
  then have "r 0 mod length generate_log_templates < length generate_log_templates" by simp
  with a show ?thesis by (auto simp: random_choice_advance)
qed

lemma resolve_catalog:
  assumes "tmpl \<in> set generate_log_templates"
  shows "\<exists>res d. resolve_template_values ext tmpl r = Inr (res, advance d r)
            \<and> severity res = severity tmpl"
  using assms unfolding generate_log_templates_def
  by (auto simp: catalog_defs resolve_template_values_def random_advance format_eval
        sublist_Cons_right)


lemma otlp_log_records_shape:
  "\<exists>recs ps d. otlp_log_records ext tid t i n r = Inr (recs, advance d r)
      \<and> length recs = n \<and> length ps = n \<and> sorted_wrt (<) ps \<and> (\<forall>p\<in>set ps. 0 < p \<and> p < d)
      \<and> (\<forall>k<n. \<exists>tmpl\<in>set generate_log_templates. \<exists>res.
            severity res = severity tmpl
            \<and> recs ! k = make_log_record res t (i + k) tid (take 16 (uuid4_of (r (ps ! k)))))"
proof (induction n arbitrary: i r)
  case 0
  have "otlp_log_records ext tid t i 0 r = Inr ([], advance 0 r)" by simp
  then show ?case by (intro exI [of _ "[]"] exI [of _ 0]) simp
next
  case (Suc n)
  obtain tmpl r1 where choice: "random_choice generate_log_templates r = (tmpl, r1)"
    by (cases "random_choice generate_log_templates r")
  then have tmpl: "tmpl \<in> set generate_log_templates" and r1: "r1 = advance 1 r"
    using random_choice_catalog by blast+
  from resolve_catalog [OF tmpl] obtain res d0 where
    resolve: "resolve_template_values ext tmpl r1 = Inr (res, advance d0 r1)"
    and sev: "severity res = severity tmpl"
    by blast
  let ?p = "d0 + 1"
  let ?r3 = "advance (d0 + 2) r"
  have span: "uuid4_hex (advance d0 r1) = (uuid4_of (r ?p), ?r3)"
    by (simp add: uuid4_hex_advance r1 advance_apply add.commute)
  from Suc.IH [of "Suc i" ?r3] obtain recs ps d where
    rec: "otlp_log_records ext tid t (Suc i) n ?r3 = Inr (recs, advance d ?r3)"
    and len: "length recs = n" "length ps = n"
    and sorted: "sorted_wrt (<) ps"
    and bound: "\<forall>p\<in>set ps. 0 < p \<and> p < d"
    and shape: "\<forall>k<n. \<exists>tmpl\<in>set generate_log_templates. \<exists>res.
            severity res = severity tmpl
            \<and> recs ! k = make_log_record res t (Suc i + k) tid (take 16 (uuid4_of (?r3 (ps ! k))))"
    by blast
  let ?rec = "make_log_record res t i tid (take 16 (uuid4_of (r ?p)))"
  let ?ps = "?p # map (\<lambda>p. p + (d0 + 2)) ps"
  have run: "otlp_log_records ext tid t i (Suc n) r = Inr (?rec # recs, advance (d + (d0 + 2)) r)"
    using choice resolve span rec by simp
  have s: "sorted_wrt (<) ?ps"
    using sorted by (auto simp: sorted_wrt_map)
  have b: "\<forall>p\<in>set ?ps. 0 < p \<and> p < d + (d0 + 2)"
    using bound by auto
  have sh: "\<exists>tmpl\<in>set generate_log_templates. \<exists>res.
            severity res = severity tmpl
            \<and> (?rec # recs) ! k = make_log_record res t (i + k) tid (take 16 (uuid4_of (r (?ps ! k))))"
    if "k < Suc n" for k
  proof (cases k)
    case 0
    with tmpl sev show ?thesis by auto
  next
    case (Suc k')
    with that have k': "k' < n" by simp
    with shape obtain tm rs where "tm \<in> set generate_log_templates" "severity rs = severity tm"
      "recs ! k' = make_log_record rs t (Suc i + k') tid (take 16 (uuid4_of (?r3 (ps ! k'))))"
      by blast
    with Suc k' len show ?thesis by (auto simp: advance_apply)
  qed
  show ?case
    apply (rule exI [of _ "?rec # recs"], rule exI [of _ ?ps], rule exI [of _ "d + (d0 + 2)"])
    using run len s b sh by simp
qed

lemma generate_otlp_logs_shape:
  "\<exists>recs ps d.
     generate_otlp_logs ext self num_logs trace_id t r =
       Inr (otlp_resource_logs self (zero_pad2 (1 + int (r d mod 10)))
              ([''development'', ''staging'', ''production''] ! (r (Suc d) mod 3)) recs,
            advance (d + 2) r)
     \<and> length recs = nat num_logs \<and> length ps = nat num_logs \<and> sorted_wrt (<) ps
     \<and> (\<forall>p\<in>set ps. (trace_id = None \<longrightarrow> 0 < p) \<and> p < d)
     \<and> (\<forall>k<nat num_logs. \<exists>tmpl\<in>set generate_log_templates. \<exists>res.
            severity res = severity tmpl
            \<and> recs ! k = make_log_record res t k (batch_trace_id trace_id r)
                            (take 16 (uuid4_of (r (ps ! k)))))"
proof -
  let ?r1 = "case trace_id of None \<Rightarrow> advance 1 r | Some x \<Rightarrow> r"
  let ?o = "case trace_id of None \<Rightarrow> 1 | Some x \<Rightarrow> (0::nat)"
  have r1: "?r1 = advance ?o r" by (cases trace_id) simp_all
  have tid: "(case trace_id of None \<Rightarrow> uuid4_hex r | Some x \<Rightarrow> (x, r)) = (batch_trace_id trace_id r, ?r1)"
    by (cases trace_id) (simp_all add: batch_trace_id_def uuid4_hex_advance)
  from otlp_log_records_shape [of ext "batch_trace_id trace_id r" t 0 "nat num_logs" ?r1]
  obtain recs ps d where
    run: "otlp_log_records ext (batch_trace_id trace_id r) t 0 (nat num_logs) ?r1 = Inr (recs, advance d ?r1)"
    and len: "length recs = nat num_logs" "length ps = nat num_logs"
    and sorted: "sorted_wrt (<) ps"
    and bound: "\<forall>p\<in>set ps. 0 < p \<and> p < d"
    and shape: "\<forall>k<nat num_logs. \<exists>tmpl\<in>set generate_log_templates. \<exists>res.
            severity res = severity tmpl
            \<and> recs ! k = make_log_record res t (0 + k) (batch_trace_id trace_id r)
                  (take 16 (uuid4_of (?r1 (ps ! k))))"
    by blast
  let ?ps = "map (\<lambda>p. p + ?o) ps"
  let ?d = "d + ?o"
  have fin: "advance d ?r1 = advance ?d r" by (simp add: r1)
  have gen: "generate_otlp_logs ext self num_logs trace_id t r =
       Inr (otlp_resource_logs self (zero_pad2 (1 + int (r ?d mod 10)))
              ([''development'', ''staging'', ''production''] ! (r (Suc ?d) mod 3)) recs,
            advance (?d + 2) r)"
    unfolding generate_otlp_logs_def tid
    by (simp add: run fin random_advance advance_apply)
  have s: "sorted_wrt (<) ?ps" using sorted by (simp add: sorted_wrt_map)
  have b: "\<forall>p\<in>set ?ps. (trace_id = None \<longrightarrow> 0 < p) \<and> p < ?d"
    using bound by auto
  have sh: "\<forall>k<nat num_logs. \<exists>tmpl\<in>set generate_log_templates. \<exists>res.
            severity res = severity tmpl
            \<and> recs ! k = make_log_record res t k (batch_trace_id trace_id r)
                            (take 16 (uuid4_of (r (?ps ! k))))"
    using shape len by (simp add: r1 advance_apply)
  show ?thesis
    apply (rule exI [of _ recs], rule exI [of _ ?ps], rule exI [of _ ?d])
    using gen len s b sh by simp
qed

lemma log_records_of_tree [simp]:
  "log_records_of (otlp_resource_logs self host env recs) = Some recs"
  by (simp add: log_records_of_def otlp_resource_logs_def)

lemma catalog_severity:
  "tmpl \<in> set generate_log_templates \<Longrightarrow>
     snd (severity tmpl) \<in> {''INFO'', ''ERROR'', ''DEBUG'', ''FATAL'', ''WARN''}"
  by (auto simp: generate_log_templates_def catalog_defs)

lemma generate_otlp_logs_records:
  obtains recs ps d where
    "generate_otlp_logs ext self num_logs trace_id t r =
       Inr (otlp_resource_logs self (zero_pad2 (1 + int (r d mod 10)))
              ([''development'', ''staging'', ''production''] ! (r (Suc d) mod 3)) recs,
            advance (d + 2) r)"
    "length recs = nat num_logs" "length ps = nat num_logs" "sorted_wrt (<) ps"
    "\<And>p. p \<in> set ps \<Longrightarrow> (trace_id = None \<longrightarrow> 0 < p) \<and> p < d"
    "\<And>k. k < nat num_logs \<Longrightarrow> \<exists>tmpl\<in>set generate_log_templates. \<exists>res.
            severity res = severity tmpl
            \<and> recs ! k = make_log_record res t k (batch_trace_id trace_id r)
                            (take 16 (uuid4_of (r (ps ! k))))"
  using generate_otlp_logs_shape [of ext self num_logs trace_id t r] by blast


lemma make_log_record_fields:
  "json_field (make_log_record res t k tid sp) ''timeUnixNano'' = Some (JStr (str_of_int (t + int k * 1000000)))"
  "json_field (make_log_record res t k tid sp) ''observedTimeUnixNano'' = Some (JStr (str_of_int (t + int k * 1000000)))"
  "json_field (make_log_record res t k tid sp) ''severityNumber'' = Some (JInt (fst (severity res)))"
  "json_field (make_log_record res t k tid sp) ''severityText'' = Some (JStr (snd (severity res)))"
  "json_field (make_log_record res t k tid sp) ''body'' = Some (JObj [(''stringValue'', JStr (message res))])"
  "json_field (make_log_record res t k tid sp) ''attributes'' = Some (JList (map otlp_attribute (attributes res)))"
  "json_field (make_log_record res t k tid sp) ''traceId'' = Some (JStr tid)"
  "json_field (make_log_record res t k tid sp) ''spanId'' = Some (JStr sp)"
  by (simp_all add: make_log_record_def)

text \<open>
  C1. For every count \<open>num_logs \<ge> 0\<close>, \<open>generate_otlp_logs\<close> returns a tree with
  one resource entry and one scope holding exactly \<open>num_logs\<close> log records. Every
  record carries the severity label and the severity number of one template of the
  catalog, the label is one of INFO, ERROR, DEBUG, FATAL and WARN and is not empty, and
  the body is a string under \<open>stringValue\<close>.
\<close>

theorem generate_otlp_logs_batch:
  assumes "0 \<le> num_logs"
  shows "\<exists>tree r' records.
           generate_otlp_logs ext self num_logs trace_id t r = Inr (tree, r')
         \<and> log_records_of tree = Some records
         \<and> int (length records) = num_logs
         \<and> (\<forall>k<length records. \<exists>tmpl\<in>set generate_log_templates. \<exists>body.
               json_field (records ! k) ''severityText'' = Some (JStr (snd (severity tmpl)))
             \<and> json_field (records ! k) ''severityNumber'' = Some (JInt (fst (severity tmpl)))
             \<and> snd (severity tmpl) \<in> {''INFO'', ''ERROR'', ''DEBUG'', ''FATAL'', ''WARN''}
             \<and> snd (severity tmpl) \<noteq> []
             \<and> json_field (records ! k) ''body'' = Some (JObj [(''stringValue'', JStr body)]))"
proof (cases rule: generate_otlp_logs_records [of ext self num_logs trace_id t r])
  case (1 recs ps d)
  note gen = 1(1) and len = 1(2,3) and sorted = 1(4) and bound = 1(5) and shape = 1(6)
  have each: "\<exists>tmpl\<in>set generate_log_templates. \<exists>body.
               json_field (recs ! k) ''severityText'' = Some (JStr (snd (severity tmpl)))
             \<and> json_field (recs ! k) ''severityNumber'' = Some (JInt (fst (severity tmpl)))
             \<and> snd (severity tmpl) \<in> {''INFO'', ''ERROR'', ''DEBUG'', ''FATAL'', ''WARN''}
             \<and> snd (severity tmpl) \<noteq> []
             \<and> json_field (recs ! k) ''body'' = Some (JObj [(''stringValue'', JStr body)])"
    if "k < length recs" for k
  proof -
    from that len shape [of k] obtain tmpl res where
      tmpl: "tmpl \<in> set generate_log_templates" and sev: "severity res = severity tmpl"
      and rk: "recs ! k = make_log_record res t k (batch_trace_id trace_id r)
                 (take 16 (uuid4_of (r (ps ! k))))"
      by auto
    from catalog_severity [OF tmpl]
    have lab: "snd (severity tmpl) \<in> {''INFO'', ''ERROR'', ''DEBUG'', ''FATAL'', ''WARN''}" .
    then have ne: "snd (severity tmpl) \<noteq> []" by auto
    show ?thesis
      apply (rule bexI [OF _ tmpl], rule exI [of _ "message res"])
      using lab ne by (simp add: rk make_log_record_fields sev)
  qed
  have "int (length recs) = num_logs" using len assms by simp
  with gen each show ?thesis
    by (intro exI [of _ "otlp_resource_logs self (zero_pad2 (1 + int (r d mod 10)))
              ([''development'', ''staging'', ''production''] ! (r (Suc d) mod 3)) recs"]
          exI [of _ "advance (d + 2) r"] exI [of _ recs]) simp
qed

text \<open>
  C2 (as amended). In every batch of \<open>generate_otlp_logs\<close> all records carry the same
  trace identifier: the one supplied, or else the single UUID made of the first draw of
  the call. The span identifier of each record is made of a draw of its own: the draws
  \<open>ps\<close> are strictly increasing along the batch, and none of them is the draw of a
  generated trace identifier.
\<close>

theorem generate_otlp_logs_trace_and_span_ids:
  "\<exists>tree r' records ps.
       generate_otlp_logs ext self num_logs trace_id t r = Inr (tree, r')
     \<and> log_records_of tree = Some records \<and> length records = nat num_logs
     \<and> (\<forall>k<length records.
           json_field (records ! k) ''traceId''
             = Some (JStr (case trace_id of Some supplied \<Rightarrow> supplied | None \<Rightarrow> uuid4_of (r 0))))
     \<and> length ps = length records \<and> sorted_wrt (<) ps
     \<and> (\<forall>k<length records. trace_id = None \<longrightarrow> 0 < ps ! k)
     \<and> (\<forall>k<length records.
           json_field (records ! k) ''spanId'' = Some (JStr (take 16 (uuid4_of (r (ps ! k))))))"
proof (cases rule: generate_otlp_logs_records [of ext self num_logs trace_id t r])
  case (1 recs ps d)
  note gen = 1(1) and len = 1(2,3) and sorted = 1(4) and bound = 1(5) and shape = 1(6)
  have tid: "batch_trace_id trace_id r = (case trace_id of Some supplied \<Rightarrow> supplied | None \<Rightarrow> uuid4_of (r 0))"
    by (simp add: batch_trace_id_def split: option.splits)
  have trace: "json_field (recs ! k) ''traceId''
             = Some (JStr (case trace_id of Some supplied \<Rightarrow> supplied | None \<Rightarrow> uuid4_of (r 0)))"
    and span: "json_field (recs ! k) ''spanId'' = Some (JStr (take 16 (uuid4_of (r (ps ! k)))))"
    if "k < length recs" for k
    using that len shape [of k] by (auto simp: make_log_record_fields tid)
  have pos: "trace_id = None \<longrightarrow> 0 < ps ! k" if "k < length recs" for k
    using that len bound [of "ps ! k"] by simp
  from gen len sorted trace span pos show ?thesis
    by (intro exI [of _ "otlp_resource_logs self (zero_pad2 (1 + int (r d mod 10)))
              ([''development'', ''staging'', ''production''] ! (r (Suc d) mod 3)) recs"]
          exI [of _ "advance (d + 2) r"] exI [of _ recs] exI [of _ ps]) simp
qed

text \<open>
  C8 (as amended). Every batch of \<open>generate_otlp_logs\<close> is a tree of one resource
  entry with the five resource attributes and one scope that holds all the records. The
  service name, the service version and the container name are set from the generator's
  configuration; the host name and the deployment environment are drawn for the batch,
  each from a draw of its own.
\<close>

theorem generate_otlp_logs_resource:
  "\<exists>records r' host environment d.
       generate_otlp_logs ext self num_logs trace_id t r =
         Inr (JObj [(''resourceLogs'', JList [JObj
                [(''resource'', JObj [(''attributes'', JList
                    [string_attribute ''service.name'' (service_name self),
                     string_attribute ''service.version'' (service_version self),
                     string_attribute ''host.name'' (''host-'' @ zero_pad2 host),
                     string_attribute ''container.name'' (service_name self @ ''-container''),
                     string_attribute ''deployment.environment'' environment])]),
                 (''scopeLogs'', JList [JObj
                    [(''scope'', JObj [(''name'', JStr (service_name self @ ''-logger'')),
                                       (''version'', JStr ''1.0.0'')]),
                     (''logRecords'', JList records)]])]])], r')
     \<and> length records = nat num_logs
     \<and> host = 1 + int (r d mod 10) \<and> 1 \<le> host \<and> host \<le> 10
     \<and> environment = [''development'', ''staging'', ''production''] ! (r (Suc d) mod 3)
     \<and> environment \<in> {''development'', ''staging'', ''production''}"
proof (cases rule: generate_otlp_logs_records [of ext self num_logs trace_id t r])
  case (1 recs ps d)
  note gen = 1(1) and len = 1(2,3) and sorted = 1(4) and bound = 1(5) and shape = 1(6)
  have "r (Suc d) mod 3 < 3" by simp
  then have "r (Suc d) mod 3 = 0 \<or> r (Suc d) mod 3 = 1 \<or> r (Suc d) mod 3 = 2" by linarith
  then have env: "[''development'', ''staging'', ''production''] ! (r (Suc d) mod 3)
      \<in> {''development'', ''staging'', ''production''}"
    by auto
  have "r d mod 10 < 10" by simp
  then have host: "1 \<le> 1 + int (r d mod 10)" "1 + int (r d mod 10) \<le> 10"
    by linarith+
  from gen len env host show ?thesis
    unfolding otlp_resource_logs_def
    by (intro exI [of _ recs] exI [of _ "advance (d + 2) r"] exI [of _ "1 + int (r d mod 10)"]
          exI [of _ "[''development'', ''staging'', ''production''] ! (r (Suc d) mod 3)"] exI [of _ d])
       simp
qed

text \<open>
  C10. In every batch of \<open>generate_otlp_logs\<close>, every attribute of a record is the
  pair of its key and the wrapper \<open>{"stringValue": str(value)}\<close>, record \<open>k\<close> has the
  time stamp \<open>current_time_ns + k * 1000000\<close> (rendered as a decimal string), and
  \<open>observedTimeUnixNano\<close> equals \<open>timeUnixNano\<close>.
\<close>

theorem generate_otlp_logs_attributes_and_timestamps:
  "\<exists>tree r' records.
       generate_otlp_logs ext self num_logs trace_id t r = Inr (tree, r')
     \<and> log_records_of tree = Some records \<and> length records = nat num_logs
     \<and> (\<forall>k<length records.
           json_field (records ! k) ''timeUnixNano'' = Some (JStr (str_of_int (t + int k * 1000000)))
         \<and> json_field (records ! k) ''observedTimeUnixNano'' = json_field (records ! k) ''timeUnixNano''
         \<and> (\<exists>attrs. json_field (records ! k) ''attributes''
               = Some (JList (map (\<lambda>(key, value).
                    JObj [(''key'', JStr key),
                          (''value'', JObj [(''stringValue'', JStr (py_str value))])]) attrs))))"
proof (cases rule: generate_otlp_logs_records [of ext self num_logs trace_id t r])
  case (1 recs ps d)
  note gen = 1(1) and len = 1(2,3) and sorted = 1(4) and bound = 1(5) and shape = 1(6)
  have attr: "otlp_attribute = (\<lambda>(key, value).
                    JObj [(''key'', JStr key),
                          (''value'', JObj [(''stringValue'', JStr (py_str value))])])"
    by (auto simp: otlp_attribute_def fun_eq_iff)
  have each: "json_field (recs ! k) ''timeUnixNano'' = Some (JStr (str_of_int (t + int k * 1000000)))
         \<and> json_field (recs ! k) ''observedTimeUnixNano'' = json_field (recs ! k) ''timeUnixNano''
         \<and> (\<exists>attrs. json_field (recs ! k) ''attributes''
               = Some (JList (map (\<lambda>(key, value).
                    JObj [(''key'', JStr key),
                          (''value'', JObj [(''stringValue'', JStr (py_str value))])]) attrs)))"
    if "k < length recs" for k
    using that len shape [of k] by (auto simp: make_log_record_fields attr)
  from gen len each show ?thesis
    by (intro exI [of _ "otlp_resource_logs self (zero_pad2 (1 + int (r d mod 10)))
              ([''development'', ''staging'', ''production''] ! (r (Suc d) mod 3)) recs"]
          exI [of _ "advance (d + 2) r"] exI [of _ recs]) simp
qed

theorem generate_otlp_logs_batch_witness:
  "\<exists>tree r' records.
       generate_otlp_logs plain_fields_only \<lparr>service_name = ''svc'', service_version = ''1.0.0''\<rparr>
         2 None 1700000000000000000 (\<lambda>i. i) = Inr (tree, r')
     \<and> log_records_of tree = Some records
     \<and> int (length records) = 2
     \<and> (\<forall>k<length records. \<exists>tmpl\<in>set generate_log_templates. \<exists>body.
           json_field (records ! k) ''severityText'' = Some (JStr (snd (severity tmpl)))
         \<and> json_field (records ! k) ''severityNumber'' = Some (JInt (fst (severity tmpl)))
         \<and> snd (severity tmpl) \<in> {''INFO'', ''ERROR'', ''DEBUG'', ''FATAL'', ''WARN''}
         \<and> snd (severity tmpl) \<noteq> []
         \<and> json_field (records ! k) ''body'' = Some (JObj [(''stringValue'', JStr body)]))"
  by (rule generate_otlp_logs_batch) simp

theorem generate_otlp_logs_trace_and_span_ids_witness:
  "\<exists>tree r' records ps.
       generate_otlp_logs plain_fields_only \<lparr>service_name = ''svc'', service_version = ''1.0.0''\<rparr>
         2 None 1700000000000000000 (\<lambda>i. i) = Inr (tree, r')
     \<and> log_records_of tree = Some records \<and> length records = nat 2
     \<and> (\<forall>k<length records.
           json_field (records ! k) ''traceId''
             = Some (JStr (case None of Some supplied \<Rightarrow> supplied | None \<Rightarrow> uuid4_of ((\<lambda>i. i) 0))))
     \<and> length ps = length records \<and> sorted_wrt (<) ps
     \<and> (\<forall>k<length records. None = (None :: string option) \<longrightarrow> 0 < ps ! k)
     \<and> (\<forall>k<length records.
           json_field (records ! k) ''spanId'' = Some (JStr (take 16 (uuid4_of ((\<lambda>i. i) (ps ! k))))))"
  by (rule generate_otlp_logs_trace_and_span_ids)

text \<open>
  C2 as stated fails for the other batch operation of the synthesizer:
  \<open>generate_structured_logs\<close> takes no trace identifier and draws a new UUID for the
  \<open>trace_id\<close> of every entry. Here the two entries of one call carry different trace
  identifiers.
\<close>

theorem generate_structured_logs_trace_ids_counterexample:
  "map (\<lambda>e. json_field e ''trace_id'')
     (case generate_structured_logs plain_fields_only
             \<lparr>service_name = ''svc'', service_version = ''1.0.0''\<rparr> 2
             (\<lambda>i. ''2026-01-01T00:00:00+00:00'') (\<lambda>i. 6 * i) of
        Inl e \<Rightarrow> [] | Inr (logs, r') \<Rightarrow> logs)
   = [Some (JStr ''00000000000040008000000000000012''),
      Some (JStr ''00000000000040008000000000000030'')]"
  unfolding generate_structured_logs_def nat_2
  by (simp add: catalog_nth login_template_def resolve_template_values_def random_eval
        sublist_Cons_right format_eval uuid_eval str_eval)

theorem generate_otlp_logs_resource_witness:
  "\<exists>records r' host environment d.
       generate_otlp_logs plain_fields_only \<lparr>service_name = ''svc'', service_version = ''1.0.0''\<rparr>
         2 None 1700000000000000000 (\<lambda>i. i) =
         Inr (JObj [(''resourceLogs'', JList [JObj
                [(''resource'', JObj [(''attributes'', JList
                    [string_attribute ''service.name''
                       (service_name \<lparr>service_name = ''svc'', service_version = ''1.0.0''\<rparr>),
                     string_attribute ''service.version''
                       (service_version \<lparr>service_name = ''svc'', service_version = ''1.0.0''\<rparr>),
                     string_attribute ''host.name'' (''host-'' @ zero_pad2 host),
                     string_attribute ''container.name''
                       (service_name \<lparr>service_name = ''svc'', service_version = ''1.0.0''\<rparr> @ ''-container''),
                     string_attribute ''deployment.environment'' environment])]),
                 (''scopeLogs'', JList [JObj
                    [(''scope'', JObj [(''name'', JStr (service_name \<lparr>service_name = ''svc'', service_version = ''1.0.0''\<rparr> @ ''-logger'')),
                                       (''version'', JStr ''1.0.0'')]),
                     (''logRecords'', JList records)]])]])], r')
     \<and> length records = nat 2
     \<and> host = 1 + int ((\<lambda>i. i) d mod 10) \<and> 1 \<le> host \<and> host \<le> 10
     \<and> environment = [''development'', ''staging'', ''production''] ! ((\<lambda>i. i) (Suc d) mod 3)
     \<and> environment \<in> {''development'', ''staging'', ''production''}"
  by (rule generate_otlp_logs_resource)

text \<open>
  C8 as stated fails: the service name, the service version and the container name are
  not randomized. Two batches of one generator under random sources that differ in every
  draw differ in the host name and the deployment environment only.
\<close>

theorem generate_otlp_logs_resource_counterexample:
  "generate_otlp_logs plain_fields_only \<lparr>service_name = ''svc'', service_version = ''1.0.0''\<rparr>
      0 (Some ''abc'') 0 (\<lambda>i. 0) =
   Inr (JObj [(''resourceLogs'', JList [JObj
          [(''resource'', JObj [(''attributes'', JList
              [string_attribute ''service.name'' ''svc'',
               string_attribute ''service.version'' ''1.0.0'',
               string_attribute ''host.name'' ''host-01'',
               string_attribute ''container.name'' ''svc-container'',
               string_attribute ''deployment.environment'' ''development''])]),
           (''scopeLogs'', JList [JObj
              [(''scope'', JObj [(''name'', JStr ''svc-logger''), (''version'', JStr ''1.0.0'')]),
               (''logRecords'', JList [])]])]])], \<lambda>i. 0)
   \<and> generate_otlp_logs plain_fields_only \<lparr>service_name = ''svc'', service_version = ''1.0.0''\<rparr>
      0 (Some ''abc'') 0 (\<lambda>i. 1) =
   Inr (JObj [(''resourceLogs'', JList [JObj
          [(''resource'', JObj [(''attributes'', JList
              [string_attribute ''service.name'' ''svc'',
               string_attribute ''service.version'' ''1.0.0'',
               string_attribute ''host.name'' ''host-02'',
               string_attribute ''container.name'' ''svc-container'',
               string_attribute ''deployment.environment'' ''staging''])]),
           (''scopeLogs'', JList [JObj
              [(''scope'', JObj [(''name'', JStr ''svc-logger''), (''version'', JStr ''1.0.0'')]),
               (''logRecords'', JList [])]])]])], \<lambda>i. 1)"
  by (simp add: generate_otlp_logs_def otlp_resource_logs_def random_eval str_eval zero_pad2_def)

theorem generate_otlp_logs_attributes_and_timestamps_witness:
  "\<exists>tree r' records.
       generate_otlp_logs plain_fields_only \<lparr>service_name = ''svc'', service_version = ''1.0.0''\<rparr>
         2 None 1700000000000000000 (\<lambda>i. i) = Inr (tree, r')
     \<and> log_records_of tree = Some records \<and> length records = nat 2
     \<and> (\<forall>k<length records.
           json_field (records ! k) ''timeUnixNano''
             = Some (JStr (str_of_int (1700000000000000000 + int k * 1000000)))
         \<and> json_field (records ! k) ''observedTimeUnixNano'' = json_field (records ! k) ''timeUnixNano''
         \<and> (\<exists>attrs. json_field (records ! k) ''attributes''
               = Some (JList (map (\<lambda>(key, value).
                    JObj [(''key'', JStr key),
                          (''value'', JObj [(''stringValue'', JStr (py_str value))])]) attrs))))"
  by (rule generate_otlp_logs_attributes_and_timestamps)

section \<open>Verification: the index verifier and the metrics scraper\<close>

lemma py_contains_False:
  "py_contains source field = Inr False \<Longrightarrow> \<not> source_present source field"
  by (cases source) (auto simp: source_present_def map_of_eq_None_iff [symmetric] split: option.splits)

lemma py_contains_True:
  "py_contains source field = Inr True \<Longrightarrow> dict_item source field = Inr v \<Longrightarrow>
     source_present source field = (v \<noteq> JNull)"
  by (cases source) (auto simp: source_present_def map_of_eq_None_iff [symmetric] split: option.splits)

lemma source_of_hit:
  "dict_get hit ''_source'' (JObj []) = Inr source \<Longrightarrow>
     source_present source field = field_present hit field"
  by (cases hit) (auto simp: source_present_def field_present_def split: option.splits json.splits)

lemma count_missing_Inr:
  "count_missing field fs = Inr fs' \<Longrightarrow>
     \<exists>st. map_of fs field = Some st \<and> map_of fs' = (map_of fs)(field \<mapsto> st\<lparr>missing := missing st + 1\<rparr>)"
  by (auto simp: count_missing_def update_conv' split: option.splits)

lemma count_present_Inr:
  "count_present str field v fs = Inr fs' \<Longrightarrow>
     \<exists>st st'. map_of fs field = Some st \<and> map_of fs' = (map_of fs)(field \<mapsto> st')
        \<and> present st' = present st + 1 \<and> missing st' = missing st"
  by (auto simp: count_present_def update_conv' split: option.splits)

lemma tally_refl: "tally fs fs f 0 0"
  by (simp add: tally_def split: option.splits)

lemma tally_trans:
  "tally fs fs1 f p m \<Longrightarrow> tally fs1 fs2 f p' m' \<Longrightarrow> tally fs fs2 f (p + p') (m + m')"
  by (auto simp: tally_def split: option.splits)

lemma count_missing_tally:
  "count_missing field fs = Inr fs' \<Longrightarrow>
     tally fs fs' f 0 (if f = field then 1 else 0)"
  by (drule count_missing_Inr) (auto simp: tally_def split: option.splits)

lemma count_present_tally:
  "count_present str field v fs = Inr fs' \<Longrightarrow>
     tally fs fs' f (if f = field then 1 else 0) 0"
  by (drule count_present_Inr) (auto simp: tally_def split: option.splits)

lemma check_fields_tally:
  "check_fields str source required fs = Inr fs' \<Longrightarrow>
     tally fs fs' f (count_list required f * (if source_present source f then 1 else 0))
                    (count_list required f * (if source_present source f then 0 else 1))"
proof (induction required arbitrary: fs)
  case Nil
  then show ?case by (simp add: tally_refl)
next
  case (Cons field others)
  let ?P = "source_present source f"
  have "\<exists>fs1. tally fs fs1 f (if f = field \<and> ?P then 1 else 0) (if f = field \<and> \<not> ?P then 1 else 0)
           \<and> check_fields str source others fs1 = Inr fs'"
  proof (cases "py_contains source field")
    case (Inl e)
    with Cons.prems show ?thesis by simp
  next
    case (Inr found)
    show ?thesis
    proof (cases found)
      case False
      with Inr Cons.prems obtain fs1 where cm: "count_missing field fs = Inr fs1"
        and rest: "check_fields str source others fs1 = Inr fs'"
        by (auto split: sum.splits)
      from Inr False have "\<not> source_present source field" by (simp add: py_contains_False)
      with count_missing_tally [OF cm, of f] rest show ?thesis by auto
    next
      case True
      with Inr Cons.prems obtain v where item: "dict_item source field = Inr v"
        by (auto split: sum.splits)
      from Inr True item have sp: "source_present source field = (v \<noteq> JNull)"
        by (simp add: py_contains_True)
      show ?thesis
      proof (cases "v = JNull")
        case null: True
        with Inr True item Cons.prems obtain fs1 where cm: "count_missing field fs = Inr fs1"
          and rest: "check_fields str source others fs1 = Inr fs'"
          by (auto split: sum.splits)
        with count_missing_tally [OF cm, of f] sp null show ?thesis by auto
      next
        case nonnull: False
        with Inr True item Cons.prems obtain fs1 where cp: "count_present str field v fs = Inr fs1"
          and rest: "check_fields str source others fs1 = Inr fs'"
          by (auto split: sum.splits)
        with count_present_tally [OF cp, of f] sp nonnull show ?thesis by auto
      qed
    qed
  qed
  then obtain fs1 where
    step: "tally fs fs1 f (if f = field \<and> ?P then 1 else 0) (if f = field \<and> \<not> ?P then 1 else 0)"
    and rest: "check_fields str source others fs1 = Inr fs'"
    by blast
  from tally_trans [OF step Cons.IH [OF rest]] show ?case
    by (auto simp: algebra_simps split: if_splits)
qed

lemma check_hits_tally:
  "check_hits str required hits fs = Inr fs' \<Longrightarrow>
     tally fs fs' f (count_list required f * length (filter (\<lambda>hit. field_present hit f) hits))
                    (count_list required f * length (filter (\<lambda>hit. \<not> field_present hit f) hits))"
proof (induction hits arbitrary: fs)
  case Nil
  then show ?case by (simp add: tally_refl)
next
  case (Cons hit hits)
  from Cons.prems obtain source fs1 where
    src: "dict_get hit ''_source'' (JObj []) = Inr source"
    and inner: "check_fields str source required fs = Inr fs1"
    and rest: "check_hits str required hits fs1 = Inr fs'"
    by (auto split: sum.splits)
  from tally_trans [OF check_fields_tally [OF inner, of f] Cons.IH [OF rest]]
  show ?case
    by (auto simp: source_of_hit [OF src] algebra_simps split: if_splits)
qed

lemma count_list_distinct:
  "distinct xs \<Longrightarrow> x \<in> set xs \<Longrightarrow> count_list xs x = 1"
  by (induction xs) auto

lemma init_field_stats_map:
  "map_of (init_field_stats required fs) f =
     (if f \<in> set required then Some \<lparr>present = 0, missing = 0, sample_values = []\<rparr>
      else map_of fs f)"
  by (induction required arbitrary: fs) (auto simp: update_conv')

lemma verify_log_fields_Verification:
  assumes "verify_log_fields str required n = (Inr (Verification checked stats), n')"
  shows "\<exists>txt body rest hits docs.
           pending n = Response 200 txt body # rest \<and> result_hits body = Inr hits
         \<and> py_iter hits = Inr docs \<and> docs \<noteq> [] \<and> checked = length docs
         \<and> check_hits str required docs (init_field_stats required []) = Inr stats"
proof -
  from assms obtain result where s: "fst (search_logs n) = (True, result)"
    by (auto simp: verify_log_fields_def split: prod.splits if_splits)
  then obtain tx body rest where p: "pending n = Response 200 tx body # rest" and r: "result = body"
    by (auto simp: search_logs_def http_request_def split: list.splits reply.splits if_splits)
  from assms s r obtain hits docs where
    h: "result_hits body = Inr hits" "truthy hits" "py_iter hits = Inr docs"
       "checked = length docs"
       "check_hits str required docs (init_field_stats required []) = Inr stats"
    by (auto simp: verify_log_fields_def split: prod.splits if_splits sum.splits)
  from h(2,3) have "docs \<noteq> []" by (cases hits) auto
  with p h show ?thesis by blast
qed

text \<open>
  C6 (as amended). When \<open>verify_log_fields\<close> reports on a non-empty sample and the
  required field names are distinct, then for every required field the \<open>present\<close> and
  \<open>missing\<close> counts sum exactly to \<open>total_logs_checked\<close>, the number of sampled
  documents; \<open>present\<close> counts the documents whose source has the field with a non-null
  value, and \<open>missing\<close> the others.
\<close>

theorem verify_log_fields_counts:
  assumes "verify_log_fields str required_fields n = (Inr (Verification checked stats), n')"
    and "distinct required_fields" and "field \<in> set required_fields"
  shows "\<exists>st docs. map_of stats field = Some st
           \<and> docs \<noteq> [] \<and> length docs = checked
           \<and> present st + missing st = checked
           \<and> present st = length (filter (\<lambda>hit. field_present hit field) docs)
           \<and> missing st = length (filter (\<lambda>hit. \<not> field_present hit field) docs)"
proof -
  from verify_log_fields_Verification [OF assms(1)] obtain docs where
    docs: "docs \<noteq> []" "checked = length docs"
    and run: "check_hits str required_fields docs (init_field_stats required_fields []) = Inr stats"
    by blast
  have one: "count_list required_fields field = 1"
    using assms(2,3) by (rule count_list_distinct)
  from check_hits_tally [OF run, of field] obtain st where
    st: "map_of stats field = Some st"
    "present st = length (filter (\<lambda>hit. field_present hit field) docs)"
    "missing st = length (filter (\<lambda>hit. \<not> field_present hit field) docs)"
    using assms(3) by (auto simp: tally_def init_field_stats_map one)
  have "present st + missing st = length docs"
    unfolding st(2,3) by (rule sum_length_filter_compl)
  with st docs show ?thesis by auto
qed

lemmas http_eval = http_request_def search_logs_def result_hits_def

lemma eval_verify_log_fields:
  "verify_log_fields str_of_scalar [''service_name'', ''message'']
     \<lparr>pending = [Response 200 [] (JObj [(''hits'', JObj [(''hits'', JList
         [JObj [(''_source'', JObj [(''service_name'', JStr ''a''), (''message'', JNull)])],
          JObj [(''_source'', JObj [(''service_name'', JStr ''b'')])]])])])],
      sent = 0\<rparr>
   = (Inr (Verification 2
        [(''service_name'', \<lparr>present = 2, missing = 0, sample_values = [''a'', ''b'']\<rparr>),
         (''message'', \<lparr>present = 0, missing = 2, sample_values = []\<rparr>)]),
      \<lparr>pending = [], sent = 1\<rparr>)"
  by (simp add: verify_log_fields_def http_eval count_present_def count_missing_def
        str_of_scalar_def)

theorem verify_log_fields_counts_witness:
  "\<exists>st docs.
      map_of [(''service_name'', \<lparr>present = 2, missing = 0, sample_values = [''a'', ''b'']\<rparr>),
              (''message'', \<lparr>present = 0, missing = 2, sample_values = []\<rparr>)] ''message'' = Some st
    \<and> docs \<noteq> [] \<and> length docs = 2
    \<and> present st + missing st = 2
    \<and> present st = length (filter (\<lambda>hit. field_present hit ''message'') docs)
    \<and> missing st = length (filter (\<lambda>hit. \<not> field_present hit ''message'') docs)"
  by (rule verify_log_fields_counts [OF eval_verify_log_fields]) simp_all

text \<open>
  C6 as stated fails when a field name is required twice: the inner loop counts the field
  once per occurrence, into the one entry of the name. One document is checked, and the
  counts of the field sum to two.
\<close>

theorem verify_log_fields_repeated_field_counterexample:
  "verify_log_fields str_of_scalar [''level'', ''level'']
     \<lparr>pending = [Response 200 [] (JObj [(''hits'', JObj [(''hits'', JList
         [JObj [(''_source'', JObj [(''level'', JInt 3)])]])])])],
      sent = 0\<rparr>
   = (Inr (Verification 1
        [(''level'', \<lparr>present = 2, missing = 0, sample_values = [''3'', ''3'']\<rparr>)]),
      \<lparr>pending = [], sent = 1\<rparr>)"
  by (simp add: verify_log_fields_def http_eval count_present_def count_missing_def
        str_of_scalar_def str_eval)

lemma search_logs_200:
  "pending n = Response 200 tx body # rest \<Longrightarrow>
     search_logs n = ((True, body), \<lparr>pending = rest, sent = Suc (sent n)\<rparr>)"
  by (simp add: search_logs_def http_request_def)

lemma search_logs_failed:
  "pending n = rp # rest \<Longrightarrow> failed rp \<Longrightarrow>
     \<exists>msg. search_logs n = ((False, JObj [(''error'', JStr msg)]), \<lparr>pending = rest, sent = Suc (sent n)\<rparr>)"
  by (auto simp: search_logs_def http_request_def failed_def split: reply.splits)

lemma search_logs_flag:
  "search_logs n = ((success, result), n') \<Longrightarrow> sent n' = Suc (sent n)"
  by (auto simp: search_logs_def http_request_def split: list.splits reply.splits if_splits)

lemma distribution_of_empty: "distribution_of (JObj []) name = Inr []"
  by (simp add: distribution_of_def)

text \<open>
  C7. After a 200 response to the count request, every result of \<open>get_log_statistics\<close>
  has \<open>total_logs\<close> equal to the \<open>value\<close> entry of \<open>hits.total\<close> when that is an object
  (0 without such an entry), and to \<open>hits.total\<close> itself when it is a scalar. The
  function returns such a result whenever the aggregation request fails or its response
  carries no aggregations, as with one mocked response for both requests.
\<close>

theorem get_log_statistics_total_logs:
  assumes "pending n = Response 200 tx body # rest"
    and "dict_get body ''hits'' (JObj []) = Inr hits"
    and "dict_get hits ''total'' (JObj []) = Inr hit_total"
  shows "(\<forall>result n'. get_log_statistics n = (Inr result, n') \<longrightarrow>
            (\<exists>by_severity by_service.
               result = Statistics
                 (case hit_total of
                    JObj kvs \<Rightarrow> (case map_of kvs ''value'' of None \<Rightarrow> JInt 0 | Some v \<Rightarrow> v)
                  | _ \<Rightarrow> hit_total) by_severity by_service))
       \<and> (benign_second_reply rest \<longrightarrow>
            (\<exists>n'. get_log_statistics n =
               (Inr (Statistics
                 (case hit_total of
                    JObj kvs \<Rightarrow> (case map_of kvs ''value'' of None \<Rightarrow> JInt 0 | Some v \<Rightarrow> v)
                  | _ \<Rightarrow> hit_total) [] []), n')))"
proof -
  let ?n1 = "\<lparr>pending = rest, sent = Suc (sent n)\<rparr>"
  have first: "search_logs n = ((True, body), ?n1)"
    using assms(1) by (rule search_logs_200)
  have tc: "(case hit_total of
                    JObj kvs \<Rightarrow> (case map_of kvs ''value'' of None \<Rightarrow> JInt 0 | Some v \<Rightarrow> v)
                  | _ \<Rightarrow> hit_total) = total_count hit_total"
    by (simp add: total_count_def)
  have a: "\<exists>by_severity by_service. result = Statistics (total_count hit_total) by_severity by_service"
    if "get_log_statistics n = (Inr result, n')" for result n'
    using that first assms(2,3)
    by (auto simp: get_log_statistics_def split: prod.splits sum.splits if_splits)
  have b: "\<exists>n'. get_log_statistics n = (Inr (Statistics (total_count hit_total) [] []), n')"
    if "benign_second_reply rest"
  proof (cases rest)
    case Nil
    then show ?thesis
      using first assms(2,3)
      by (simp add: get_log_statistics_def search_logs_def http_request_def)
  next
    case (Cons r2 more_replies)
    show ?thesis
    proof (cases r2)
      case (TransportError e)
      with Cons show ?thesis
        using first assms(2,3)
        by (simp add: get_log_statistics_def search_logs_def http_request_def)
    next
      case (Response status tx2 body2)
      with Cons that show ?thesis
        using first assms(2,3)
        by (auto simp: get_log_statistics_def search_logs_def http_request_def
              benign_second_reply_def distribution_of_empty)
    qed
  qed
  from a b show ?thesis unfolding tc by blast
qed

lemma eval_statistics_object:
  "get_log_statistics
     \<lparr>pending = [Response 200 [] (JObj [(''hits'', JObj [(''total'', JObj [(''value'', JInt 5)])])]),
                 Response 200 [] (JObj [(''hits'', JObj [(''total'', JObj [(''value'', JInt 5)])])])],
      sent = 0\<rparr>
   = (Inr (Statistics (JInt 5) [] []), \<lparr>pending = [], sent = 2\<rparr>)"
  by (simp add: get_log_statistics_def http_eval total_count_def distribution_of_def)

lemma eval_statistics_scalar:
  "get_log_statistics
     \<lparr>pending = [Response 200 [] (JObj [(''hits'', JObj [(''total'', JInt 7)])]),
                 Response 200 [] (JObj [(''hits'', JObj [(''total'', JInt 7)])])],
      sent = 0\<rparr>
   = (Inr (Statistics (JInt 7) [] []), \<lparr>pending = [], sent = 2\<rparr>)"
  by (simp add: get_log_statistics_def http_eval total_count_def distribution_of_def)

theorem get_log_statistics_total_logs_witness:
  "(\<exists>n'. get_log_statistics
       \<lparr>pending = [Response 200 [] (JObj [(''hits'', JObj [(''total'', JObj [(''value'', JInt 5)])])]),
                   Response 200 [] (JObj [(''hits'', JObj [(''total'', JObj [(''value'', JInt 5)])])])],
        sent = 0\<rparr> = (Inr (Statistics (JInt 5) [] []), n'))
   \<and> (\<exists>n'. get_log_statistics
       \<lparr>pending = [Response 200 [] (JObj [(''hits'', JObj [(''total'', JInt 7)])]),
                   Response 200 [] (JObj [(''hits'', JObj [(''total'', JInt 7)])])],
        sent = 0\<rparr> = (Inr (Statistics (JInt 7) [] []), n'))"
proof -
  let ?m5 = "Response 200 [] (JObj [(''hits'', JObj [(''total'', JObj [(''value'', JInt 5)])])])"
  let ?m7 = "Response 200 [] (JObj [(''hits'', JObj [(''total'', JInt 7)])])"
  have benign: "benign_second_reply [?m5]" "benign_second_reply [?m7]"
    by (simp_all add: benign_second_reply_def)
  have five: "\<exists>n'. get_log_statistics \<lparr>pending = [?m5, ?m5], sent = 0\<rparr>
                 = (Inr (Statistics (JInt 5) [] []), n')"
    using get_log_statistics_total_logs [of "\<lparr>pending = [?m5, ?m5], sent = 0\<rparr>" "[]"
            "JObj [(''hits'', JObj [(''total'', JObj [(''value'', JInt 5)])])]" "[?m5]"
            "JObj [(''total'', JObj [(''value'', JInt 5)])]" "JObj [(''value'', JInt 5)]"]
          benign(1)
    by simp
  have seven: "\<exists>n'. get_log_statistics \<lparr>pending = [?m7, ?m7], sent = 0\<rparr>
                 = (Inr (Statistics (JInt 7) [] []), n')"
    using get_log_statistics_total_logs [of "\<lparr>pending = [?m7, ?m7], sent = 0\<rparr>" "[]"
            "JObj [(''hits'', JObj [(''total'', JInt 7)])]" "[?m7]"
            "JObj [(''total'', JInt 7)]" "JInt 7"]
          benign(2)
    by simp
  from five seven show ?thesis ..
qed

text \<open>
  C5 (as amended). On a response with a status other than 200 and on a transport-level
  exception, each of these operations returns without raising, after exactly one request:
  \<open>False\<close>, an empty list, an empty dict, the pair of \<open>False\<close> and an empty list, or
  (\<open>search_logs\<close>, \<open>get_log_statistics\<close>, \<open>verify_log_fields\<close>) a value that carries an
  error message under the key \<open>error\<close>.
\<close>

theorem failed_reply_results:
  assumes "pending n = rp # rest" and "failed rp"
  shows "check_opensearch_connection n = (False, \<lparr>pending = rest, sent = Suc (sent n)\<rparr>)
       \<and> get_indices_info n = (JList [], \<lparr>pending = rest, sent = Suc (sent n)\<rparr>)
       \<and> (\<exists>msg. search_logs n =
              ((False, JObj [(''error'', JStr msg)]), \<lparr>pending = rest, sent = Suc (sent n)\<rparr>))
       \<and> search_by_service n = (Inr (False, []), \<lparr>pending = rest, sent = Suc (sent n)\<rparr>)
       \<and> search_by_severity n = (Inr (False, []), \<lparr>pending = rest, sent = Suc (sent n)\<rparr>)
       \<and> search_by_time_range n = (Inr (False, []), \<lparr>pending = rest, sent = Suc (sent n)\<rparr>)
       \<and> search_by_trace_id n = (Inr (False, []), \<lparr>pending = rest, sent = Suc (sent n)\<rparr>)
       \<and> get_log_statistics n =
            (Inr (StatisticsError ''Failed to get log statistics''),
             \<lparr>pending = rest, sent = Suc (sent n)\<rparr>)
       \<and> verify_log_fields str required_fields n =
            (Inr (VerificationError ''Failed to retrieve logs for field verification''),
             \<lparr>pending = rest, sent = Suc (sent n)\<rparr>)
       \<and> delete_logs_by_service n = (False, \<lparr>pending = rest, sent = Suc (sent n)\<rparr>)
       \<and> send_test_logs n = (False, \<lparr>pending = rest, sent = Suc (sent n)\<rparr>)
       \<and> refresh_opensearch_indices n = (False, \<lparr>pending = rest, sent = Suc (sent n)\<rparr>)
       \<and> send_test_log n = (False, \<lparr>pending = rest, sent = Suc (sent n)\<rparr>)
       \<and> check_opensearch_logs n = (JObj [], \<lparr>pending = rest, sent = Suc (sent n)\<rparr>)
       \<and> check_dlq_metrics n = ([], \<lparr>pending = rest, sent = Suc (sent n)\<rparr>)"
proof -
  let ?n' = "\<lparr>pending = rest, sent = Suc (sent n)\<rparr>"
  have req: "http_request n = (rp, ?n')"
    using assms(1) by (simp add: http_request_def)
  from search_logs_failed [OF assms] obtain msg where
    sl: "search_logs n = ((False, JObj [(''error'', JStr msg)]), ?n')" by blast
  have ss: "search_sources n = (Inr (False, []), ?n')"
    by (simp add: search_sources_def sl)
  have 1: "check_opensearch_connection n = (False, ?n')"
    using assms(2) by (cases rp) (simp_all add: check_opensearch_connection_def req failed_def)
  have 2: "get_indices_info n = (JList [], ?n')"
    using assms(2) by (cases rp) (simp_all add: get_indices_info_def req failed_def)
  have 3: "get_log_statistics n = (Inr (StatisticsError ''Failed to get log statistics''), ?n')"
    by (simp add: get_log_statistics_def sl)
  have 4: "verify_log_fields str required_fields n =
            (Inr (VerificationError ''Failed to retrieve logs for field verification''), ?n')"
    by (simp add: verify_log_fields_def sl)
  have 5: "delete_logs_by_service n = (False, ?n')"
    using assms(2) by (cases rp) (simp_all add: delete_logs_by_service_def req failed_def)
  have 6: "send_test_logs n = (False, ?n')"
    using assms(2) by (cases rp) (simp_all add: send_test_logs_def req failed_def)
  have 7: "refresh_opensearch_indices n = (False, ?n')"
    using assms(2) by (cases rp) (simp_all add: refresh_opensearch_indices_def req failed_def)
  have 8: "send_test_log n = (False, ?n')"
    using assms(2) by (cases rp) (simp_all add: send_test_log_def req failed_def)
  have 9: "check_opensearch_logs n = (JObj [], ?n')"
    using assms(2) by (cases rp) (simp_all add: check_opensearch_logs_def req failed_def)
  have 10: "check_dlq_metrics n = ([], ?n')"
    using assms(2) by (cases rp) (simp_all add: check_dlq_metrics_def req failed_def)
  from sl have sl': "\<exists>msg. search_logs n = ((False, JObj [(''error'', JStr msg)]), ?n')" by blast
  show ?thesis
    using 1 2 sl' ss 3 4 5 6 7 8 9 10
    by (simp only: search_by_service_def search_by_severity_def search_by_time_range_def
          search_by_trace_id_def simp_thms)
qed

lemma check_services_loop_numeral:
  "check_services_loop (numeral k) all_healthy n =
     (case http_request n of
        (Response status tx body, n') \<Rightarrow>
          check_services_loop (pred_numeral k) (if status < 400 then all_healthy else False) n'
      | (TransportError e, n') \<Rightarrow> check_services_loop (pred_numeral k) False n')"
  by (simp only: numeral_eq_Suc [of k] check_services_loop.simps)

lemma wait_for_service_numeral:
  "wait_for_service (numeral k) n =
     (case http_request n of
        (Response status tx body, n') \<Rightarrow>
          if status = 200 then (True, n') else wait_for_service (pred_numeral k) n'
      | (TransportError e, n') \<Rightarrow> wait_for_service (pred_numeral k) n')"
  by (simp only: numeral_eq_Suc [of k] wait_for_service.simps)

theorem failed_reply_results_witness:
  "check_opensearch_connection \<lparr>pending = [Response 503 ''unavailable'' JNull], sent = 0\<rparr>
     = (False, \<lparr>pending = [], sent = Suc 0\<rparr>)
   \<and> get_log_statistics \<lparr>pending = [Response 503 ''unavailable'' JNull], sent = 0\<rparr>
     = (Inr (StatisticsError ''Failed to get log statistics''), \<lparr>pending = [], sent = Suc 0\<rparr>)
   \<and> check_dlq_metrics \<lparr>pending = [TransportError ''timed out''], sent = 0\<rparr>
     = ([], \<lparr>pending = [], sent = Suc 0\<rparr>)"
proof -
  have a: "failed (Response 503 ''unavailable'' JNull)" "failed (TransportError ''timed out'')"
    by (simp_all add: failed_def)
  from failed_reply_results [of "\<lparr>pending = [Response 503 ''unavailable'' JNull], sent = 0\<rparr>"
         "Response 503 ''unavailable'' JNull" "[]" str_of_scalar "[]", OF _ a(1)]
       failed_reply_results [of "\<lparr>pending = [TransportError ''timed out''], sent = 0\<rparr>"
         "TransportError ''timed out''" "[]" str_of_scalar "[]", OF _ a(2)]
  show ?thesis by simp
qed

text \<open>
  C5 as stated fails: \<open>search_logs\<close> returns a dict with the error message, which is
  neither empty nor falsy; \<open>wait_for_service\<close> sends a second request after a 503
  response; \<open>cleanup_test_data\<close> returns \<open>True\<close> on a 500 response; and the error
  tester's \<open>check_services\<close> accepts every status below 400.
\<close>

theorem failed_reply_results_counterexample:
  "search_logs \<lparr>pending = [Response 500 ''boom'' JNull], sent = 0\<rparr>
     = ((False, JObj [(''error'', JStr ''HTTP 500: boom'')]), \<lparr>pending = [], sent = 1\<rparr>)
   \<and> truthy (JObj [(''error'', JStr ''HTTP 500: boom'')])
   \<and> wait_for_service 30
        \<lparr>pending = [Response 503 ''starting'' JNull, Response 200 ''ok'' JNull], sent = 0\<rparr>
     = (True, \<lparr>pending = [], sent = 2\<rparr>)
   \<and> cleanup_test_data \<lparr>pending = [Response 500 ''boom'' JNull], sent = 0\<rparr>
     = (True, \<lparr>pending = [], sent = 1\<rparr>)
   \<and> check_services
        \<lparr>pending = [Response 204 [] JNull, Response 302 [] JNull, Response 399 [] JNull], sent = 0\<rparr>
     = (True, \<lparr>pending = [], sent = 3\<rparr>)"
  by (simp add: search_logs_def http_request_def str_eval wait_for_service_numeral
        cleanup_test_data_def check_services_def check_services_loop_numeral)

lemma split_on_nonempty: "split_on c s \<noteq> []"
  by (induction s) (auto split: list.splits)

lemma split_on_first: "split_on c s ! 0 = takeWhile (\<lambda>x. x \<noteq> c) s"
proof (induction s)
  case Nil
  then show ?case by simp
next
  case (Cons x xs)
  then show ?case
    using split_on_nonempty [of c xs] by (cases "split_on c xs") auto
qed

lemma split_on_second:
  "c \<in> set s \<Longrightarrow> split_on c s ! 1 = takeWhile (\<lambda>x. x \<noteq> c) (tl (dropWhile (\<lambda>x. x \<noteq> c) s))"
proof (induction s)
  case Nil
  then show ?case by simp
next
  case (Cons x xs)
  show ?case
  proof (cases "x = c")
    case True
    then show ?thesis using split_on_first [of c xs] by simp
  next
    case False
    with Cons.prems have "c \<in> set xs" by simp
    from Cons.IH [OF this] False show ?thesis
      using split_on_nonempty [of c xs] by (cases "split_on c xs") auto
  qed
qed

lemma parse_dlq_metrics_map:
  "map_of (parse_dlq_metrics lines acc) =
     map_of acc ++
     map_of (rev (map (\<lambda>line. (split_on CHR '' '' line ! 0, split_on CHR '' '' line ! 1))
        (filter (\<lambda>line. \<not> prefix ''#'' line \<and> is_dlq_line line \<and> CHR '' '' \<in> set line) lines)))"
proof (induction lines arbitrary: acc)
  case Nil
  then show ?case by simp
next
  case (Cons line lines)
  show ?case
    by (simp add: Cons.IH update_conv' map_add_upd_left [symmetric] del: map_add_upd_left)
       (simp add: map_add_def fun_eq_iff split: option.splits)
qed

text \<open>
  C9 (as amended). On a 200 response \<open>check_dlq_metrics\<close> returns the mapping built from
  exactly the lines of the metrics text that do not start with \<open>#\<close>, contain \<open>dlq\<close> or
  \<open>error\<close> in any case, and contain a space: each maps the text before its first space
  to the text between its first and its second space; of two lines with one name the
  later wins.
\<close>

theorem check_dlq_metrics_mapping:
  assumes "pending n = Response 200 metrics_text body # rest"
  shows "\<exists>metrics.
           check_dlq_metrics n = (metrics, \<lparr>pending = rest, sent = Suc (sent n)\<rparr>)
         \<and> map_of metrics =
             map_of (rev (map
               (\<lambda>line. (takeWhile (\<lambda>c. c \<noteq> CHR '' '') line,
                        takeWhile (\<lambda>c. c \<noteq> CHR '' '') (tl (dropWhile (\<lambda>c. c \<noteq> CHR '' '') line))))
               (filter (\<lambda>line. \<not> prefix ''#'' line \<and> is_dlq_line line \<and> CHR '' '' \<in> set line)
                  (split_on (CHR 0x0A) metrics_text))))"
proof -
  let ?sel = "\<lambda>line. \<not> prefix ''#'' line \<and> is_dlq_line line \<and> CHR '' '' \<in> set line"
  let ?lines = "split_on (CHR 0x0A) metrics_text"
  have run: "check_dlq_metrics n =
      (parse_dlq_metrics ?lines [], \<lparr>pending = rest, sent = Suc (sent n)\<rparr>)"
    using assms by (simp add: check_dlq_metrics_def http_request_def)
  have same: "map (\<lambda>line. (split_on CHR '' '' line ! 0, split_on CHR '' '' line ! 1)) (filter ?sel ?lines)
      = map (\<lambda>line. (takeWhile (\<lambda>c. c \<noteq> CHR '' '') line,
                        takeWhile (\<lambda>c. c \<noteq> CHR '' '') (tl (dropWhile (\<lambda>c. c \<noteq> CHR '' '') line))))
          (filter ?sel ?lines)"
    by (rule map_cong) (auto simp: split_on_first split_on_second simp del: One_nat_def)
  show ?thesis
    using run parse_dlq_metrics_map [of ?lines "[]"] unfolding same by simp
qed

lemma eval_check_dlq_metrics:
  "check_dlq_metrics
     \<lparr>pending = [Response 200 (''error_total 5 1700'' @ [CHR 0x0A] @ ''dlq_total'') JNull], sent = 0\<rparr>
   = ([(''error_total'', ''5'')], \<lparr>pending = [], sent = 1\<rparr>)"
  by (simp add: check_dlq_metrics_def http_request_def is_dlq_line_def py_lower_def lower_char_def
        sublist_Cons_right)

text \<open>
  C9 as stated fails: the value is the second piece of the line, not the rest after the
  first space, and a selected line without a space is left out.
\<close>

theorem check_dlq_metrics_counterexample:
  "check_dlq_metrics
     \<lparr>pending = [Response 200 (''error_total 5 1700'' @ [CHR 0x0A] @ ''dlq_total'') JNull], sent = 0\<rparr>
   = ([(''error_total'', ''5'')], \<lparr>pending = [], sent = 1\<rparr>)
   \<and> claimed_dlq_metrics (''error_total 5 1700'' @ [CHR 0x0A] @ ''dlq_total'') ''error_total''
       = Some ''5 1700''
   \<and> claimed_dlq_metrics (''error_total 5 1700'' @ [CHR 0x0A] @ ''dlq_total'') ''dlq_total''
       = Some []"
  by (simp add: check_dlq_metrics_def http_request_def is_dlq_line_def py_lower_def lower_char_def
        sublist_Cons_right claimed_dlq_metrics_def first_space_split_def)

theorem check_dlq_metrics_mapping_witness:
  "\<exists>metrics.
      check_dlq_metrics
        \<lparr>pending = [Response 200 (''# HELP dlq'' @ [CHR 0x0A] @ ''dlq_records_total 7'') JNull], sent = 0\<rparr>
        = (metrics, \<lparr>pending = [], sent = Suc 0\<rparr>)
    \<and> map_of metrics =
        map_of (rev (map
          (\<lambda>line. (takeWhile (\<lambda>c. c \<noteq> CHR '' '') line,
                   takeWhile (\<lambda>c. c \<noteq> CHR '' '') (tl (dropWhile (\<lambda>c. c \<noteq> CHR '' '') line))))
          (filter (\<lambda>line. \<not> prefix ''#'' line \<and> is_dlq_line line \<and> CHR '' '' \<in> set line)
             (split_on (CHR 0x0A) (''# HELP dlq'' @ [CHR 0x0A] @ ''dlq_records_total 7'')))))"
  using check_dlq_metrics_mapping
     [of "\<lparr>pending = [Response 200 (''# HELP dlq'' @ [CHR 0x0A] @ ''dlq_records_total 7'') JNull], sent = 0\<rparr>"
         "''# HELP dlq'' @ [CHR 0x0A] @ ''dlq_records_total 7''" JNull "[]"]
  by simp

end
